theory Spec2Isabelle
  imports Main "HOL-Library.Word"
begin

section \<open>JavaScript values used by p-oauth.js\<close>

text \<open>
  A JavaScript string is a sequence of 16-bit code units. String literals of the source
  are written \<open>lit ''...''\<close>.
\<close>

type_synonym jschar = "16 word"
type_synonym jsstring = "jschar list"

definition lit :: "string \<Rightarrow> jsstring" where
  "lit s = map of_char s"

text \<open>The code units the source names in its literals: \<open>/\<close>, \<open>&\<close>, \<open>=\<close> and \<open>:\<close>.\<close>

abbreviation slash :: jschar where "slash \<equiv> 0x2F"
abbreviation ampersand :: jschar where "ampersand \<equiv> 0x26"
abbreviation equals_sign :: jschar where "equals_sign \<equiv> 0x3D"
abbreviation colon :: jschar where "colon \<equiv> 0x3A"

text \<open>
  The values that flow through the module: \<open>undefined\<close>, \<open>null\<close> and strings. A number
  (the \<open>expires_in\<close> of a token response) only ever meets the operator \<open>*\<close>, which the
  model leaves uninterpreted, so it is carried as its decimal text.
\<close>

datatype jsval = Undefined | Null | Str jsstring

fun truthy :: "jsval \<Rightarrow> bool" where
  "truthy Undefined = False"
| "truthy Null = False"
| "truthy (Str s) = (s \<noteq> [])"

fun ToString :: "jsval \<Rightarrow> jsstring" where
  "ToString Undefined = lit ''undefined''"
| "ToString Null = lit ''null''"
| "ToString (Str s) = s"

datatype js_error =
    Error jsstring
  | ReferenceError jsstring
  | InvalidCharacterError
  | URIError

text \<open>\<open>String.prototype.split\<close> with a separator of one code unit: never an empty array.\<close>

fun js_split :: "jschar \<Rightarrow> jsstring \<Rightarrow> jsstring list" where
  "js_split sep [] = [[]]"
| "js_split sep (c # cs) =
     (if c = sep then [] # js_split sep cs
      else (case js_split sep cs of
              [] \<Rightarrow> [[c]]
            | p # ps \<Rightarrow> (c # p) # ps))"

text \<open>\<open>a[i]\<close> on an array of strings: \<open>undefined\<close> past the end.\<close>

definition at_index :: "jsstring list \<Rightarrow> nat \<Rightarrow> jsval" where
  "at_index a i = (if i < length a then Str (a ! i) else Undefined)"

text \<open>
  \<open>Array.prototype.join\<close> with a separator of one code unit: \<open>undefined\<close> and \<open>null\<close>
  elements contribute the empty string.
\<close>

fun join_element :: "jsval \<Rightarrow> jsstring" where
  "join_element Undefined = []"
| "join_element Null = []"
| "join_element (Str s) = s"

fun js_join :: "jschar \<Rightarrow> jsval list \<Rightarrow> jsstring" where
  "js_join sep [] = []"
| "js_join sep [v] = join_element v"
| "js_join sep (v # vs) = join_element v @ sep # js_join sep vs"

text \<open>
  A plain object created by \<open>{}\<close>: a finite map from property names to values. Reading a
  property that was never set gives \<open>undefined\<close>. Assigning to \<open>__proto__\<close> reaches the
  setter inherited from \<open>Object.prototype\<close>, which ignores a value that is neither an
  object nor \<open>null\<close> and creates no property; the values assigned here are strings or
  \<open>undefined\<close>.
\<close>

type_synonym jsobj = "jsstring \<rightharpoonup> jsval"

definition obj_get :: "jsobj \<Rightarrow> jsstring \<Rightarrow> jsval" where
  "obj_get obj k = (case obj k of None \<Rightarrow> Undefined | Some v \<Rightarrow> v)"

definition obj_set :: "jsobj \<Rightarrow> jsstring \<Rightarrow> jsval \<Rightarrow> jsobj" where
  "obj_set obj k v = (if k = lit ''__proto__'' then obj else obj(k \<mapsto> v))"

section \<open>The host's base64 functions\<close>

text \<open>
  \<open>btoa\<close> and \<open>atob\<close> are built into the browser; they are modelled after the HTML
  Standard. \<open>btoa\<close> throws \<open>InvalidCharacterError\<close> when a code unit is above 0xFF and
  otherwise encodes the code units as bytes. \<open>atob\<close> is the forgiving decoder: it drops
  ASCII whitespace, removes one or two trailing \<open>=\<close> when the length is a multiple of
  four, throws when the remaining length is 1 modulo 4 or when a character lies outside
  the alphabet, and discards the spare low bits of a final partial group.
\<close>

definition b64_char :: "nat \<Rightarrow> jschar" where
  "b64_char n =
     of_nat (if n < 26 then 65 + n
             else if n < 52 then 71 + n
             else if n < 62 then n - 4
             else if n = 62 then 43
             else 47)"

definition b64_value :: "jschar \<Rightarrow> nat option" where
  "b64_value c =
     (let k = unat c in
      if 65 \<le> k \<and> k \<le> 90 then Some (k - 65)
      else if 97 \<le> k \<and> k \<le> 122 then Some (k - 71)
      else if 48 \<le> k \<and> k \<le> 57 then Some (k + 4)
      else if k = 43 then Some 62
      else if k = 47 then Some 63
      else None)"

fun b64_encode :: "nat list \<Rightarrow> jsstring" where
  "b64_encode [] = []"
| "b64_encode [x] =
     [b64_char (x div 4), b64_char ((x mod 4) * 16), equals_sign, equals_sign]"
| "b64_encode [x, y] =
     [b64_char (x div 4), b64_char ((x mod 4) * 16 + y div 16),
      b64_char ((y mod 16) * 4), equals_sign]"
| "b64_encode (x # y # z # rest) =
     [b64_char (x div 4), b64_char ((x mod 4) * 16 + y div 16),
      b64_char ((y mod 16) * 4 + z div 64), b64_char (z mod 64)] @ b64_encode rest"

text \<open>The six-bit values of the same encoding, before the padding; used in the proofs.\<close>

fun b64_sextets :: "nat list \<Rightarrow> nat list" where
  "b64_sextets [] = []"
| "b64_sextets [x] = [x div 4, (x mod 4) * 16]"
| "b64_sextets [x, y] = [x div 4, (x mod 4) * 16 + y div 16, (y mod 16) * 4]"
| "b64_sextets (x # y # z # rest) =
     [x div 4, (x mod 4) * 16 + y div 16, (y mod 16) * 4 + z div 64, z mod 64]
     @ b64_sextets rest"

definition btoa :: "jsstring \<Rightarrow> js_error + jsstring" where
  "btoa s =
     (if list_all (\<lambda>c. unat c < 256) s then Inr (b64_encode (map unat s))
      else Inl InvalidCharacterError)"

definition ascii_whitespace :: "jschar \<Rightarrow> bool" where
  "ascii_whitespace c = (c = 0x09 \<or> c = 0x0A \<or> c = 0x0C \<or> c = 0x0D \<or> c = 0x20)"

definition strip_padding :: "jsstring \<Rightarrow> jsstring" where
  "strip_padding d =
     (if length d mod 4 = 0 then
        (case rev d of
           a # b # r \<Rightarrow>
             if a = equals_sign \<and> b = equals_sign then rev r
             else if a = equals_sign then rev (b # r)
             else d
         | _ \<Rightarrow> d)
      else d)"

fun b64_decode :: "nat list \<Rightarrow> nat list" where
  "b64_decode (a # b # c # d # rest) =
     [a * 4 + b div 16, (b mod 16) * 16 + c div 4, (c mod 4) * 64 + d] @ b64_decode rest"
| "b64_decode [a, b, c] = [a * 4 + b div 16, (b mod 16) * 16 + c div 4]"
| "b64_decode [a, b] = [a * 4 + b div 16]"
| "b64_decode _ = []"

definition atob :: "jsstring \<Rightarrow> js_error + jsstring" where
  "atob s =
     (let d = strip_padding (filter (\<lambda>c. \<not> ascii_whitespace c) s) in
      if length d mod 4 = 1 then Inl InvalidCharacterError
      else (case those (map b64_value d) of
              None \<Rightarrow> Inl InvalidCharacterError
            | Some vs \<Rightarrow> Inr (map of_nat (b64_decode vs))))"

section \<open>The collaborators: cookie store, HTTP client, location, console\<close>

text \<open>
  An entry of \<open>$cookies\<close>. Its expiration is \<open>new Date(getTime() + expires_in * 1000)\<close>;
  the two operands are kept as they are, the arithmetic of JavaScript numbers is not
  interpreted. The store itself is the host's: the model keeps what \<open>put\<close> wrote and
  never expires an entry by itself.
\<close>

record cookie =
  cvalue :: jsstring
  written_at :: int
  lifetime :: jsval

text \<open>The configuration object passed to \<open>$http\<close>; the body lists its keys in insertion order.\<close>

record request =
  req_method :: jsstring
  req_url :: jsstring
  req_Authorization :: jsstring
  req_data :: "(jsstring \<times> jsval) list"

text \<open>
  Every call that leaves the module, in the order the code makes it. \<open>LocationServiceHash\<close>
  is \<open>$location.hash('')\<close>, \<open>HashAssigned\<close> is \<open>location.hash = ''\<close>, \<open>HrefAssigned\<close> is
  the navigation \<open>window.location.href = ...\<close>.
\<close>

datatype event =
    CookiesGet jsstring
  | CookiesPut jsstring cookie
  | CookiesRemove jsstring
  | HashRead
  | LocationServiceHash
  | HashAssigned
  | HrefRead
  | HrefAssigned jsstring
  | Reload
  | HttpPost request
  | ConsoleWarn jsstring
  | ConsoleError jsval

text \<open>
  The state outside the instance. \<open>Authorization\<close> is
  \<open>$http.defaults.headers.common.Authorization\<close>. \<open>location_hash\<close> is what
  \<open>location.hash\<close> returns (empty, or \<open>#\<close> followed by the fragment); \<open>$window.location\<close>
  and \<open>location\<close> are the same object. \<open>ngRoute\<close> says whether
  \<open>angular.module('ngRoute')\<close> succeeds. \<open>globals\<close> holds the string-valued global
  variables, which the unqualified names \<open>SERVER\<close>, \<open>TOKEN\<close>, \<open>CLIENT_ID\<close> and
  \<open>CLIENT_SECRET\<close> of the token request resolve to: no enclosing scope declares them.
  \<open>encodeURIComponent\<close> is the host's function, used only to build the redirect URL.
\<close>

record world =
  cookies :: "jsstring \<rightharpoonup> cookie"
  withCredentials :: bool
  Authorization :: jsval
  location_hash :: jsstring
  location_href :: jsstring
  ngRoute :: bool
  globals :: "jsstring \<rightharpoonup> jsstring"
  clock :: int
  encodeURIComponent :: "jsstring \<Rightarrow> js_error + jsstring"
  trace :: "event list"

definition emit :: "event \<Rightarrow> world \<Rightarrow> world" where
  "emit e w = w\<lparr>trace := trace w @ [e]\<rparr>"

definition cookies_get :: "world \<Rightarrow> jsstring \<Rightarrow> jsval" where
  "cookies_get w k = (case cookies w k of None \<Rightarrow> Undefined | Some c \<Rightarrow> Str (cvalue c))"

definition global_ref :: "world \<Rightarrow> jsstring \<Rightarrow> js_error + jsstring" where
  "global_ref w name =
     (case globals w name of None \<Rightarrow> Inl (ReferenceError name) | Some v \<Rightarrow> Inr v)"

section \<open>class OAuth\<close>

definition TYPE_CLIENT_CREDENTIALS :: jsstring where
  "TYPE_CLIENT_CREDENTIALS = lit ''client_credentials''"

definition TYPE_USER_CREDENTIALS :: jsstring where
  "TYPE_USER_CREDENTIALS = lit ''password''"

definition TYPE_IMPLICIT :: jsstring where
  "TYPE_IMPLICIT = lit ''token''"

definition AUTHORIZE :: jsstring where
  "AUTHORIZE = lit ''authorize''"

definition TOKEN :: jsstring where
  "TOKEN = lit ''token''"

text \<open>
  The properties the class assigns on \<open>this\<close> besides the five constants above.
  \<open>CLIENT_SECRET\<close> and \<open>accessToken\<close> are not assigned by the constructor, so they read
  \<open>undefined\<close> until \<open>setSecret\<close> and \<open>login\<close> set them.
\<close>

record oauth =
  CLIENT_ID :: jsstring
  SERVER :: jsstring
  COOKIE_KEY :: jsstring
  CLIENT_SECRET :: jsval
  accessToken :: jsval

text \<open>
  \<open>this[name]\<close> for a data property: the constants, the fields of the record, and
  \<open>undefined\<close> for a name the class never assigns. (Method names are not data
  properties and are not meant to be asked here.)
\<close>

definition data_property :: "oauth \<Rightarrow> jsstring \<Rightarrow> jsval" where
  "data_property self name =
     (if name = lit ''TYPE_CLIENT_CREDENTIALS'' then Str TYPE_CLIENT_CREDENTIALS
      else if name = lit ''TYPE_USER_CREDENTIALS'' then Str TYPE_USER_CREDENTIALS
      else if name = lit ''TYPE_IMPLICIT'' then Str TYPE_IMPLICIT
      else if name = lit ''AUTHORIZE'' then Str AUTHORIZE
      else if name = lit ''TOKEN'' then Str TOKEN
      else if name = lit ''CLIENT_ID'' then Str (CLIENT_ID self)
      else if name = lit ''SERVER'' then Str (SERVER self)
      else if name = lit ''COOKIE_KEY'' then Str (COOKIE_KEY self)
      else if name = lit ''CLIENT_SECRET'' then CLIENT_SECRET self
      else if name = lit ''accessToken'' then accessToken self
      else Undefined)"

text \<open>
  \<open>server.replace(/([^\/])$/, '$1/')\<close>: the pattern matches the last code unit when it is
  not a slash, and the replacement puts a slash after it. A string that ends with a slash
  (or is empty) has no match and is returned as it is.
\<close>

definition replace_last_non_slash :: "jsstring \<Rightarrow> jsstring" where
  "replace_last_non_slash server =
     (if server \<noteq> [] \<and> last server \<noteq> slash then butlast server @ [last server, slash]
      else server)"

text \<open>The constructor; \<open>cookieKey\<close> is \<open>None\<close> when the argument is left out.\<close>

definition "constructor" :: "jsstring \<Rightarrow> jsstring \<Rightarrow> jsstring option \<Rightarrow> js_error + oauth" where
  "constructor server clientId cookieKey =
     (if server = [] then Inl (Error (lit ''OAuth: please provide the server URL''))
      else if clientId = [] then Inl (Error (lit ''OAuth: please provide the client ID''))
      else Inr \<lparr>CLIENT_ID = clientId,
                SERVER = replace_last_non_slash server @ lit ''oauth/'',
                COOKIE_KEY = (case cookieKey of None \<Rightarrow> lit ''qOAuth2'' | Some k \<Rightarrow> k),
                CLIENT_SECRET = Undefined,
                accessToken = Undefined\<rparr>)"

definition setSecret :: "oauth \<Rightarrow> jsval \<Rightarrow> world \<Rightarrow> oauth \<times> world" where
  "setSecret self clientSecret w =
     (self\<lparr>CLIENT_SECRET := clientSecret\<rparr>,
      emit (ConsoleWarn (lit
        ''In production, you should use TYPE_IMPLICIT when logging in within JavaScript.'')) w)"

definition setHttpDefault :: "jsval \<Rightarrow> world \<Rightarrow> world" where
  "setHttpDefault token w =
     w\<lparr>withCredentials := True,
       Authorization := Str (lit ''Bearer '' @ ToString token)\<rparr>"

definition decodeHash :: "jsstring \<Rightarrow> jsobj" where
  "decodeHash hash =
     (if hash = [] then Map.empty
      else
        let hash1 = (if take 1 hash = [slash] then drop 1 hash else hash) in
        fold (\<lambda>fragment hashObj.
                let parts = js_split equals_sign fragment in
                obj_set hashObj (ToString (at_index parts 0)) (at_index parts 1))
             (js_split ampersand hash1) Map.empty)"

text \<open>
  The two expressions that write and read the cookie value:
  \<open>btoa([data.access_token, data.token_type, data.scope].join(':'))\<close> in \<open>saveToken\<close> and
  \<open>atob(cookie).split(':')\<close> in \<open>login\<close>.
\<close>

definition encode_token :: "jsval \<Rightarrow> jsval \<Rightarrow> jsval \<Rightarrow> js_error + jsstring" where
  "encode_token access_token token_type scope =
     btoa (js_join colon [access_token, token_type, scope])"

definition decode_cookie :: "jsstring \<Rightarrow> js_error + jsstring list" where
  "decode_cookie c = (case atob c of Inl e \<Rightarrow> Inl e | Inr s \<Rightarrow> Inr (js_split colon s))"

definition saveToken :: "oauth \<Rightarrow> jsobj \<Rightarrow> world \<Rightarrow> js_error + world" where
  "saveToken self d w =
     (case encode_token (obj_get d (lit ''access_token'')) (obj_get d (lit ''token_type''))
             (obj_get d (lit ''scope'')) of
        Inl e \<Rightarrow> Inl e
      | Inr c \<Rightarrow>
          let entry = \<lparr>cvalue = c, written_at = clock w,
                       lifetime = obj_get d (lit ''expires_in'')\<rparr>;
              w1 = emit (CookiesPut (COOKIE_KEY self) entry)
                     (w\<lparr>cookies := (cookies w)(COOKIE_KEY self \<mapsto> entry)\<rparr>)
          in Inr (setHttpDefault (obj_get d (lit ''access_token'')) w1))"

text \<open>
  What a call of \<open>login\<close> leaves behind: the instance, the outside world, the state of
  the promise it returned, and the exception, if any, that escaped the function passed to
  \<open>$q\<close> (or the response callback) before it could settle the promise.
\<close>

datatype promise = Pending | Resolved | Rejected jsval

record run =
  inst :: oauth
  env :: world
  promise :: promise
  thrown :: "js_error option"

definition returns :: "oauth \<Rightarrow> world \<Rightarrow> promise \<Rightarrow> run" where
  "returns self w p = \<lparr>inst = self, env = w, promise = p, thrown = None\<rparr>"

definition throws :: "oauth \<Rightarrow> world \<Rightarrow> js_error \<Rightarrow> run" where
  "throws self w e = \<lparr>inst = self, env = w, promise = Pending, thrown = Some e\<rparr>"

text \<open>
  The configuration object of the \<open>$http\<close> call, its properties evaluated in source order:
  \<open>url: SERVER + TOKEN\<close>, then the \<open>Authorization\<close> template with \<open>CLIENT_ID\<close> and
  \<open>CLIENT_SECRET\<close>, then \<open>angular.extend(data, {grant_type: type})\<close>. The four names
  carry no \<open>this.\<close> in the source and are looked up as global variables.
\<close>

definition token_request ::
    "jsstring \<Rightarrow> (jsstring \<times> jsval) list \<Rightarrow> world \<Rightarrow> js_error + request" where
  "token_request type d w =
     (case global_ref w (lit ''SERVER'') of Inl e \<Rightarrow> Inl e | Inr g_server \<Rightarrow>
      case global_ref w (lit ''TOKEN'') of Inl e \<Rightarrow> Inl e | Inr g_token \<Rightarrow>
      case global_ref w (lit ''CLIENT_ID'') of Inl e \<Rightarrow> Inl e | Inr g_id \<Rightarrow>
      case global_ref w (lit ''CLIENT_SECRET'') of Inl e \<Rightarrow> Inl e | Inr g_secret \<Rightarrow>
      case btoa (g_id @ lit '':'' @ g_secret) of Inl e \<Rightarrow> Inl e | Inr b \<Rightarrow>
        Inr \<lparr>req_method = lit ''POST'',
             req_url = g_server @ g_token,
             req_Authorization = lit ''Basic'' @ b,
             req_data = d @ [(lit ''grant_type'', Str type)]\<rparr>)"

text \<open>The statements after the \<open>switch\<close>: the token request, or the console message.\<close>

definition exchange :: "oauth \<Rightarrow> jsstring \<Rightarrow> (jsstring \<times> jsval) list \<Rightarrow> world \<Rightarrow> run" where
  "exchange self type d w =
     (if truthy (CLIENT_SECRET self) then
        (case token_request type d w of
           Inl e \<Rightarrow> throws self w e
         | Inr r \<Rightarrow> returns self (emit (HttpPost r) w) Pending)
      else
        returns self
          (emit (ConsoleError (Str (lit ''OAuth: please provide the client secret.''))) w)
          Pending)"

text \<open>
  The \<open>switch (type)\<close> under the comment \<open>Token from server\<close>; \<open>case\<close> compares with
  \<open>===\<close>, in the order of the source. The \<open>TYPE_IMPLICIT\<close> case assigns
  \<open>window.location.href\<close> and returns; the \<open>default\<close> case returns.
\<close>

definition token_from_server :: "oauth \<Rightarrow> jsval \<Rightarrow> jsval \<Rightarrow> jsval \<Rightarrow> world \<Rightarrow> run" where
  "token_from_server self type username password w =
     (if type = Str TYPE_USER_CREDENTIALS then
        exchange self TYPE_USER_CREDENTIALS
          [(lit ''username'', username), (lit ''password'', password)] w
      else if type = Str TYPE_CLIENT_CREDENTIALS then
        exchange self TYPE_CLIENT_CREDENTIALS [] w
      else if type = Str TYPE_IMPLICIT then
        (let w1 = emit HrefRead w in
         case encodeURIComponent w1 (location_href w1) of
           Inl e \<Rightarrow> throws self w1 e
         | Inr redirect_uri \<Rightarrow>
             let request = lit ''?'' @ lit ''response_type='' @ TYPE_IMPLICIT
                   @ lit ''&'' @ lit ''client_id='' @ CLIENT_ID self
                   @ lit ''&'' @ lit ''redirect_uri='' @ redirect_uri
             in returns self (emit (HrefAssigned (SERVER self @ AUTHORIZE @ request)) w1)
                  Pending)
      else returns self w Pending)"

text \<open>
  The function passed to \<open>$q\<close> in \<open>login\<close>. An argument left out is \<open>Undefined\<close>; \<open>type\<close>
  then takes its default. \<open>isTry\<close> stands for the truthiness of the second argument.
  \<open>$location.hash('')\<close> is recorded as a call: the service rewrites the address later, on
  its own schedule.
\<close>

definition login :: "oauth \<Rightarrow> jsval \<Rightarrow> bool \<Rightarrow> jsval \<Rightarrow> jsval \<Rightarrow> world \<Rightarrow> run" where
  "login self type_arg isTry username password w =
     (let type = (if type_arg = Undefined then Str TYPE_IMPLICIT else type_arg) in
      if type = Str TYPE_USER_CREDENTIALS \<and> \<not> (truthy username \<and> truthy password) then
        returns self w (Rejected (Str (lit ''Username and password not provided'')))
      else if truthy (accessToken self) then
        returns self w Resolved
      else
        let cookie = cookies_get w (COOKIE_KEY self);
            w1 = emit (CookiesGet (COOKIE_KEY self)) w
        in
        if truthy cookie then
          (case decode_cookie (ToString cookie) of
             Inl e \<Rightarrow> throws self w1 e
           | Inr d \<Rightarrow>
               returns (self\<lparr>accessToken := at_index d 0\<rparr>)
                 (setHttpDefault (at_index d 0) w1) Resolved)
        else
          let hash = drop 1 (location_hash w1);
              w2 = emit HashRead w1;
              hashObj = decodeHash (drop 1 (location_hash w2));
              w3 = emit HashRead w2
          in
          if hash \<noteq> [] \<and> truthy (obj_get hashObj (lit ''access_token'')) then
            (let w4 = (if ngRoute w3 then emit LocationServiceHash w3
                       else emit HashAssigned (w3\<lparr>location_hash := []\<rparr>));
                 self1 = self\<lparr>accessToken := obj_get hashObj (lit ''access_token'')\<rparr>
             in
             case saveToken self1 hashObj w4 of
               Inl e \<Rightarrow> throws self1 w4 e
             | Inr w5 \<Rightarrow> returns self1 w5 Resolved)
          else
            let w6 = (if hash \<noteq> [] then w3 else w2) in
            if isTry then returns self w6 (Rejected Undefined)
            else token_from_server self type username password w6)"

text \<open>The two callbacks given to \<open>then\<close>: on a response, and on a failed request.\<close>

definition login_response :: "oauth \<Rightarrow> jsobj \<Rightarrow> world \<Rightarrow> run" where
  "login_response self response_data w =
     (let self1 = self\<lparr>accessToken := obj_get response_data (lit ''access_token'')\<rparr> in
      case saveToken self1 response_data w of
        Inl e \<Rightarrow> throws self1 w e
      | Inr w1 \<Rightarrow> returns self1 w1 Resolved)"

definition login_failure :: "oauth \<Rightarrow> jsval \<Rightarrow> world \<Rightarrow> run" where
  "login_failure self arguments w = returns self (emit (ConsoleError arguments) w) Pending"

definition tryLogin :: "oauth \<Rightarrow> jsval \<Rightarrow> world \<Rightarrow> run" where
  "tryLogin self type_arg w =
     login self (if type_arg = Undefined then Str TYPE_IMPLICIT else type_arg) True
       Undefined Undefined w"

definition logout :: "oauth \<Rightarrow> world \<Rightarrow> oauth \<times> world" where
  "logout self w =
     (self\<lparr>accessToken := Null\<rparr>,
      emit Reload
        (emit (CookiesRemove (COOKIE_KEY self))
           (w\<lparr>cookies := (cookies w)(COOKIE_KEY self := None)\<rparr>)))"

section \<open>Descriptions used in the statements\<close>

text \<open>
  The base URL \<open>ends with exactly one path separator followed by oauth/\<close>: cut off the
  last six code units, which must be \<open>oauth/\<close>, and count the slashes at the end of what
  is left.
\<close>

definition trailing_slashes :: "jsstring \<Rightarrow> nat" where
  "trailing_slashes s = length (takeWhile (\<lambda>c. c = slash) (rev s))"

definition one_separator_then_oauth :: "jsstring \<Rightarrow> bool" where
  "one_separator_then_oauth u =
     (drop (length u - 6) u = lit ''oauth/''
      \<and> trailing_slashes (take (length u - 6) u) = 1)"

text \<open>
  A piece of the fragment read as \<open>key=value\<close>: the key is the text before the first
  \<open>=\<close>. \<open>value_to_second_equals\<close> is the text between the first \<open>=\<close> and the next one
  (or the end), and \<open>undefined\<close> for a piece without \<open>=\<close>.
\<close>

definition piece_key :: "jsstring \<Rightarrow> jsstring" where
  "piece_key p = takeWhile (\<lambda>c. c \<noteq> equals_sign) p"

definition value_to_second_equals :: "jsstring \<Rightarrow> jsval" where
  "value_to_second_equals p =
     (if equals_sign \<in> set p
      then Str (takeWhile (\<lambda>c. c \<noteq> equals_sign) (tl (dropWhile (\<lambda>c. c \<noteq> equals_sign) p)))
      else Undefined)"

definition strip_one_slash :: "jsstring \<Rightarrow> jsstring" where
  "strip_one_slash h = (case h of [] \<Rightarrow> [] | c # cs \<Rightarrow> if c = slash then cs else h)"

section \<open>Concrete inputs\<close>

text \<open>
  An instance as \<open>new OAuth('http://s', 'cid')\<close> builds it, and a browser with no cookie,
  no fragment, no router and no global variables. None of the runs below reaches the
  redirect, so the \<open>encodeURIComponent\<close> of this world is never called.
\<close>

definition example_instance :: oauth where
  "example_instance =
     \<lparr>CLIENT_ID = lit ''cid'', SERVER = lit ''http://s/oauth/'', COOKIE_KEY = lit ''qOAuth2'',
      CLIENT_SECRET = Undefined, accessToken = Undefined\<rparr>"

definition example_world :: world where
  "example_world =
     \<lparr>cookies = Map.empty, withCredentials = False, Authorization = Undefined,
      location_hash = [], location_href = lit ''http://app/'', ngRoute = False,
      globals = Map.empty, clock = 0, encodeURIComponent = (\<lambda>s. Inl URIError),
      trace = []\<rparr>"

definition cached_instance :: oauth where
  "cached_instance = example_instance\<lparr>accessToken := Str (lit ''tok0'')\<rparr>"

text \<open>A browser whose cookie \<open>qOAuth2\<close> holds \<open>btoa('tok1:bearer:read')\<close>.\<close>

definition tok1_cookie :: cookie where
  "tok1_cookie =
     \<lparr>cvalue = lit ''dG9rMTpiZWFyZXI6cmVhZA=='', written_at = 0, lifetime = Str (lit ''3600'')\<rparr>"

definition cookie_world :: world where
  "cookie_world = example_world\<lparr>cookies := [lit ''qOAuth2'' \<mapsto> tok1_cookie]\<rparr>"

text \<open>A browser that the authorization server has sent back with a token in the fragment.\<close>

definition fragment_world :: world where
  "fragment_world =
     example_world\<lparr>location_hash := lit ''#access_token=tok2&token_type=bearer''\<rparr>"

text \<open>The body of a token response, \<open>response.data\<close>.\<close>

definition token_response :: jsobj where
  "token_response =
     [lit ''access_token'' \<mapsto> Str (lit ''tok3''), lit ''token_type'' \<mapsto> Str (lit ''bearer''),
      lit ''scope'' \<mapsto> Str (lit ''read''), lit ''expires_in'' \<mapsto> Str (lit ''3600'')]"

text \<open>
  The instance after \<open>setSecret('sec')\<close>, and a page that also defines the four global
  variables the token request reads, with the values of the instance.
\<close>

definition secret_instance :: oauth where
  "secret_instance = example_instance\<lparr>CLIENT_SECRET := Str (lit ''sec'')\<rparr>"

definition globals_world :: world where
  "globals_world =
     example_world\<lparr>globals :=
       [lit ''SERVER'' \<mapsto> lit ''http://s/oauth/'', lit ''TOKEN'' \<mapsto> lit ''token'',
        lit ''CLIENT_ID'' \<mapsto> lit ''cid'', lit ''CLIENT_SECRET'' \<mapsto> lit ''sec'']\<rparr>"

definition sent_request :: request where
  "sent_request =
     \<lparr>req_method = lit ''POST'', req_url = lit ''http://s/oauth/token'',
      req_Authorization = lit ''BasicY2lkOnNlYw=='',
      req_data = [(lit ''grant_type'', Str (lit ''client_credentials''))]\<rparr>"

section \<open>Basic facts\<close>

lemma TYPE_distinct:
  "TYPE_USER_CREDENTIALS \<noteq> TYPE_IMPLICIT"
  "TYPE_USER_CREDENTIALS \<noteq> TYPE_CLIENT_CREDENTIALS"
  "TYPE_CLIENT_CREDENTIALS \<noteq> TYPE_IMPLICIT"
  by (simp_all add: TYPE_USER_CREDENTIALS_def TYPE_IMPLICIT_def TYPE_CLIENT_CREDENTIALS_def
      lit_def)

lemma constructor_example:
  "constructor (lit ''http://s'') (lit ''cid'') None = Inr example_instance"
  by (simp add: constructor_def replace_last_non_slash_def example_instance_def lit_def)

subsection \<open>The base64 functions invert each other on bytes\<close>

lemma unat_b64_char:
  "n < 64 \<Longrightarrow> unat (b64_char n) =
     (if n < 26 then 65 + n else if n < 52 then 71 + n else if n < 62 then n - 4
      else if n = 62 then 43 else 47)"
  by (simp add: b64_char_def unat_of_nat)

lemma b64_value_char: "n < 64 \<Longrightarrow> b64_value (b64_char n) = Some n"
  by (auto simp add: b64_value_def unat_b64_char Let_def)

lemma b64_char_not_pad: "n < 64 \<Longrightarrow> b64_char n \<noteq> equals_sign"
proof
  assume n: "n < 64" and e: "b64_char n = equals_sign"
  from e have "unat (b64_char n) = 61" by simp
  with n show False by (simp add: unat_b64_char split: if_splits)
qed

lemma b64_char_not_space: "n < 64 \<Longrightarrow> \<not> ascii_whitespace (b64_char n)"
proof
  assume n: "n < 64" and e: "ascii_whitespace (b64_char n)"
  from e have "unat (b64_char n) \<in> {9, 10, 12, 13, 32}"
    by (auto simp add: ascii_whitespace_def)
  with n show False by (auto simp add: unat_b64_char split: if_splits)
qed

lemma pad_not_space: "\<not> ascii_whitespace equals_sign"
  by (simp add: ascii_whitespace_def)

lemma sextet_bounds:
  "x < 256 \<Longrightarrow> y < 256 \<Longrightarrow> z < 256 \<Longrightarrow>
   x div 4 < 64 \<and> x mod 4 * 16 < 64 \<and> x mod 4 * 16 + y div 16 < 64 \<and>
   y mod 16 * 4 < 64 \<and> y mod 16 * 4 + z div 64 < 64 \<and> z mod 64 < (64::nat)"
  by (auto simp add: less_mult_imp_div_less)

lemma sextets_bound:
  "list_all (\<lambda>b. b < 256) bs \<Longrightarrow> list_all (\<lambda>v. v < 64) (b64_sextets bs)"
proof (induction bs rule: b64_sextets.induct)
  case 1 show ?case by simp
next
  case (2 x) then show ?case by (auto simp add: less_mult_imp_div_less)
next
  case (3 x y)
  then have "x < 256" "y < 256" by simp_all
  then show ?case by (auto simp add: less_mult_imp_div_less)
next
  case (4 x y z rest)
  then have "x < 256" "y < 256" "z < 256" by simp_all
  with 4 show ?case by (auto simp add: less_mult_imp_div_less)
qed

lemma sextets_length: "length (b64_sextets bs) mod 4 \<noteq> Suc 0"
  by (induction bs rule: b64_sextets.induct) simp_all

lemma encode_length: "length (b64_encode bs) mod 4 = 0"
  by (induction bs rule: b64_encode.induct) simp_all

lemma those_value_char:
  "list_all (\<lambda>v. v < 64) vs \<Longrightarrow> those (map (b64_value \<circ> b64_char) vs) = Some vs"
  by (induction vs) (simp_all add: b64_value_char)

lemma decode_sextets:
  "list_all (\<lambda>b. b < 256) bs \<Longrightarrow> b64_decode (b64_sextets bs) = bs"
proof (induction bs rule: b64_sextets.induct)
  case 1 show ?case by simp
next
  case (2 x)
  have "x div 4 * 4 + x mod 4 * 16 div 16 = x" by (simp add: less_mult_imp_div_less)
  then show ?case by simp
next
  case (3 x y)
  then have y: "y < 256" by simp
  have a: "x div 4 * 4 + (x mod 4 * 16 + y div 16) div 16 = x" using y by (simp add: less_mult_imp_div_less)
  have b: "(x mod 4 * 16 + y div 16) mod 16 * 16 + y mod 16 * 4 div 4 = y" using y by (simp add: less_mult_imp_div_less)
  show ?case using a b by simp
next
  case (4 x y z rest)
  then have y: "y < 256" and z: "z < 256" and r: "list_all (\<lambda>b. b < 256) rest" by simp_all
  have a: "x div 4 * 4 + (x mod 4 * 16 + y div 16) div 16 = x" using y by (simp add: less_mult_imp_div_less)
  have b: "(x mod 4 * 16 + y div 16) mod 16 * 16 + (y mod 16 * 4 + z div 64) div 4 = y"
    using y z by (simp add: less_mult_imp_div_less)
  have c: "(y mod 16 * 4 + z div 64) mod 4 * 64 + z mod 64 = z" using z by (simp add: less_mult_imp_div_less)
  show ?case using a b c 4 r by simp
qed

lemma filter_encode:
  "list_all (\<lambda>b. b < 256) bs \<Longrightarrow>
   filter (\<lambda>c. \<not> ascii_whitespace c) (b64_encode bs) = b64_encode bs"
proof (induction bs rule: b64_encode.induct)
  case 1 show ?case by simp
next
  case (2 x)
  then show ?case using sextet_bounds[of x 0 0]
    by (simp add: b64_char_not_space pad_not_space)
next
  case (3 x y)
  then show ?case using sextet_bounds[of x y 0]
    by (simp add: b64_char_not_space pad_not_space)
next
  case (4 x y z rest)
  then have r: "list_all (\<lambda>b. b < 256) rest" by simp
  from 4(2) 4(1)[OF r] show ?case using sextet_bounds[of x y z]
    by (simp add: b64_char_not_space)
qed

lemma strip_encode:
  "list_all (\<lambda>b. b < 256) bs \<Longrightarrow> length pre mod 4 = 0 \<Longrightarrow>
   pre = [] \<or> last pre \<noteq> equals_sign \<Longrightarrow>
   strip_padding (pre @ b64_encode bs) = pre @ map b64_char (b64_sextets bs)"
proof (induction bs arbitrary: pre rule: b64_encode.induct)
  case 1
  then show ?case
    by (cases pre rule: rev_cases) (auto simp add: strip_padding_def split: list.splits)
next
  case (2 x)
  then show ?case by (simp add: strip_padding_def)
next
  case (3 x y)
  then have "b64_char (y mod 16 * 4) \<noteq> equals_sign"
    using sextet_bounds[of x y 0] by (simp add: b64_char_not_pad)
  with 3 show ?case by (simp add: strip_padding_def)
next
  case (4 x y z rest)
  then have r: "list_all (\<lambda>b. b < 256) rest" by simp
  let ?g = "[b64_char (x div 4), b64_char ((x mod 4) * 16 + y div 16),
      b64_char ((y mod 16) * 4 + z div 64), b64_char (z mod 64)]"
  have l: "length (pre @ ?g) mod 4 = 0" using 4(3) by simp
  have e: "pre @ ?g = [] \<or> last (pre @ ?g) \<noteq> equals_sign"
    using 4(2) sextet_bounds[of x y z] by (simp add: b64_char_not_pad)
  from 4(1)[OF r l e] show ?case by simp
qed

lemma atob_encode:
  assumes "list_all (\<lambda>b. b < 256) bs"
  shows "atob (b64_encode bs) = Inr (map of_nat bs)"
proof -
  have s: "strip_padding (b64_encode bs) = map b64_char (b64_sextets bs)"
    using strip_encode[OF assms, of "[]"] by simp
  show ?thesis
    by (simp add: atob_def filter_encode[OF assms] s sextets_length
        those_value_char[OF sextets_bound[OF assms]] decode_sextets[OF assms])
qed

lemma atob_btoa:
  assumes "list_all (\<lambda>c. unat c < 256) s"
  shows "btoa s = Inr (b64_encode (map unat s)) \<and> atob (b64_encode (map unat s)) = Inr s"
proof -
  have "list_all (\<lambda>b. b < 256) (map unat s)" using assms by (simp add: list_all_iff)
  from atob_encode[OF this] show ?thesis using assms by (simp add: btoa_def comp_def)
qed

section \<open>Splitting and decodeHash\<close>

lemma js_split_not_Nil: "js_split sep s \<noteq> []"
  by (induction s) (auto split: list.splits)

lemma hd_js_split: "hd (js_split sep s) = takeWhile (\<lambda>c. c \<noteq> sep) s"
  using js_split_not_Nil[of sep]
  by (induction s) (auto split: list.splits)

lemma tl_js_split:
  "tl (js_split sep s) =
     (if sep \<in> set s then js_split sep (tl (dropWhile (\<lambda>c. c \<noteq> sep) s)) else [])"
  using js_split_not_Nil[of sep]
  by (induction s) (auto split: list.splits)

lemma js_split_eq:
  "js_split sep s = takeWhile (\<lambda>c. c \<noteq> sep) s #
     (if sep \<in> set s then js_split sep (tl (dropWhile (\<lambda>c. c \<noteq> sep) s)) else [])"
  using hd_js_split[of sep s] tl_js_split[of sep s] js_split_not_Nil[of sep s]
  by (cases "js_split sep s") auto

lemma at_index_split_0: "at_index (js_split sep s) 0 = Str (takeWhile (\<lambda>c. c \<noteq> sep) s)"
  by (subst js_split_eq) (simp add: at_index_def)

lemma at_index_split_1:
  "at_index (js_split sep s) (Suc 0) =
     (if sep \<in> set s
      then Str (takeWhile (\<lambda>c. c \<noteq> sep) (tl (dropWhile (\<lambda>c. c \<noteq> sep) s)))
      else Undefined)"
proof (cases "sep \<in> set s")
  case True
  have "js_split sep s = takeWhile (\<lambda>c. c \<noteq> sep) s #
      js_split sep (tl (dropWhile (\<lambda>c. c \<noteq> sep) s))"
    using True js_split_eq[of sep s] by simp
  moreover have "js_split sep (tl (dropWhile (\<lambda>c. c \<noteq> sep) s)) \<noteq> []"
    by (rule js_split_not_Nil)
  ultimately show ?thesis using True hd_js_split[of sep "tl (dropWhile (\<lambda>c. c \<noteq> sep) s)"]
    by (cases "js_split sep (tl (dropWhile (\<lambda>c. c \<noteq> sep) s))") (auto simp add: at_index_def)
next
  case False
  then show ?thesis using js_split_eq[of sep s] by (simp add: at_index_def)
qed

lemma js_split_no_sep: "sep \<notin> set s \<Longrightarrow> js_split sep s = [s]"
  by (induction s) auto

lemma js_split_append: "sep \<notin> set a \<Longrightarrow> js_split sep (a @ sep # rest) = a # js_split sep rest"
  by (induction a) auto

lemma fold_obj_set_lookup:
  "fold (\<lambda>p m. obj_set m (kf p) (vf p)) ps m0 k =
     (if k = lit ''__proto__'' then m0 k
      else (case find (\<lambda>p. kf p = k) (rev ps) of None \<Rightarrow> m0 k | Some p \<Rightarrow> Some (vf p)))"
proof (induction ps rule: rev_induct)
  case Nil
  show ?case by simp
next
  case (snoc p ps)
  then show ?case by (auto simp add: obj_set_def)
qed

text \<open>
  C3, as the code has it. \<open>decodeHash\<close> returns the empty object for the empty string.
  Otherwise it removes one leading slash if there is one, splits the rest at every \<open>&\<close>,
  and stores, for each piece, under the text before the first \<open>=\<close>, the text between the
  first \<open>=\<close> and the second one (or the end of the piece): what follows a second \<open>=\<close>
  is dropped, and a piece without \<open>=\<close> stores \<open>undefined\<close>. Values are not URL-decoded.
  A later piece replaces an earlier one with the same key, and the key \<open>__proto__\<close> stores
  nothing. So the object maps a key to the value of the last piece that has this key.
\<close>

theorem decodeHash_lookup:
  "decodeHash hash k =
     (if hash = [] \<or> k = lit ''__proto__'' then None
      else map_option value_to_second_equals
             (find (\<lambda>p. piece_key p = k) (rev (js_split ampersand (strip_one_slash hash)))))"
proof (cases "hash = []")
  case True
  then show ?thesis by (simp add: decodeHash_def)
next
  case False
  then have s: "(if take 1 hash = [slash] then drop 1 hash else hash) = strip_one_slash hash"
    by (cases hash) (simp_all add: strip_one_slash_def)
  have "decodeHash hash =
      fold (\<lambda>fragment hashObj.
             obj_set hashObj (ToString (at_index (js_split equals_sign fragment) 0))
               (at_index (js_split equals_sign fragment) 1))
        (js_split ampersand (strip_one_slash hash)) Map.empty"
    using False unfolding decodeHash_def Let_def s by simp
  also have "\<dots> = fold (\<lambda>p m. obj_set m (piece_key p) (value_to_second_equals p))
        (js_split ampersand (strip_one_slash hash)) Map.empty"
    by (simp add: at_index_split_0 at_index_split_1 piece_key_def value_to_second_equals_def)
  finally show ?thesis
    using False by (simp add: fold_obj_set_lookup split: option.splits)
qed

text \<open>
  The claim as stated (a value that contains \<open>=\<close> is kept whole) fails: \<open>a=b=c\<close> stores
  \<open>b\<close> under \<open>a\<close>, not \<open>b=c\<close>.
\<close>

theorem decodeHash_keeps_value_whole_counterexample:
  "decodeHash (lit ''a=b=c'') (lit ''a'') = Some (Str (lit ''b''))
   \<and> Str (lit ''b'') \<noteq> Str (lit ''b=c'')"
  by (simp add: decodeHash_def lit_def obj_set_def at_index_def)

theorem decodeHash_lookup_witness:
  "decodeHash (lit ''access_token=tok2&token_type=bearer'') (lit ''access_token'') = Some (Str (lit ''tok2''))
  \<and> decodeHash (lit ''/k=v=w&flag'') (lit ''k'') = Some (Str (lit ''v''))
  \<and> decodeHash (lit ''/k=v=w&flag'') (lit ''flag'') = Some Undefined
  \<and> decodeHash [] (lit ''k'') = None"
  using decodeHash_lookup[of "lit ''access_token=tok2&token_type=bearer''" "lit ''access_token''"]
    decodeHash_lookup[of "lit ''/k=v=w&flag''" "lit ''k''"]
    decodeHash_lookup[of "lit ''/k=v=w&flag''" "lit ''flag''"]
    decodeHash_lookup[of "[]" "lit ''k''"]
  by (simp add: lit_def strip_one_slash_def piece_key_def value_to_second_equals_def)

section \<open>The constructor\<close>

lemma trailing_slashes_snoc:
  "trailing_slashes (s @ [c]) = (if c = slash then Suc (trailing_slashes s) else 0)"
  by (simp add: trailing_slashes_def)

lemma replace_last_non_slash_eq:
  "server \<noteq> [] \<Longrightarrow>
   replace_last_non_slash server = server @ (if last server = slash then [] else [slash])"
  by (simp add: replace_last_non_slash_def)

lemma trailing_slashes_last:
  "s \<noteq> [] \<Longrightarrow> (last s = slash) = (0 < trailing_slashes s)"
  by (cases s rule: rev_cases) (simp_all add: trailing_slashes_def)

text \<open>
  C7, as the code has it. For a non-empty server URL and client id the constructor
  succeeds, and \<open>SERVER\<close> is the given URL, followed by one slash if the URL does not end
  with one, followed by \<open>oauth/\<close>. Slashes already at the end are kept as they are, so
  \<open>SERVER\<close> ends with exactly one slash and \<open>oauth/\<close> precisely when the given URL ends
  with at most one slash.
\<close>

theorem constructor_normalizes:
  assumes server: "server \<noteq> []" and clientId: "clientId \<noteq> []"
  shows "\<exists>self. constructor server clientId cookieKey = Inr self
           \<and> SERVER self = server @ (if last server = slash then [] else [slash]) @ lit ''oauth/''
           \<and> one_separator_then_oauth (SERVER self) = (trailing_slashes server \<le> 1)"
proof -
  let ?base = "server @ (if last server = slash then [] else [slash])"
  have t: "trailing_slashes ?base = (if last server = slash then trailing_slashes server else 1)"
    using trailing_slashes_last[OF server] by (simp add: trailing_slashes_snoc)
  have l: "length (lit ''oauth/'') = 6" by (simp add: lit_def)
  have "one_separator_then_oauth (?base @ lit ''oauth/'') = (trailing_slashes ?base = 1)"
    unfolding one_separator_then_oauth_def using l by simp
  moreover have "(trailing_slashes ?base = 1) = (trailing_slashes server \<le> 1)"
    using t trailing_slashes_last[OF server] by auto
  ultimately show ?thesis
    using server clientId
    by (simp add: constructor_def replace_last_non_slash_eq)
qed

theorem constructor_normalizes_witness:
  "lit ''http://s'' \<noteq> [] \<and> lit ''cid'' \<noteq> []
   \<and> constructor (lit ''http://s'') (lit ''cid'') None = Inr example_instance
   \<and> SERVER example_instance = lit ''http://s/oauth/''
   \<and> one_separator_then_oauth (SERVER example_instance)
   \<and> constructor (lit ''http://s/'') (lit ''cid'') None = Inr example_instance"
  using constructor_normalizes[of "lit ''http://s''" "lit ''cid''" None]
    constructor_normalizes[of "lit ''http://s/''" "lit ''cid''" None]
  by (auto simp add: lit_def example_instance_def trailing_slashes_def constructor_def)

text \<open>
  The claim as stated (exactly one separator, also for an input that ends with several)
  fails for \<open>http://s//\<close>: \<open>SERVER\<close> is \<open>http://s//oauth/\<close>.
\<close>

theorem constructor_two_separators_counterexample:
  "constructor (lit ''http://s//'') (lit ''cid'') None =
     Inr \<lparr>CLIENT_ID = lit ''cid'', SERVER = lit ''http://s//oauth/'',
          COOKIE_KEY = lit ''qOAuth2'', CLIENT_SECRET = Undefined, accessToken = Undefined\<rparr>
   \<and> \<not> one_separator_then_oauth (lit ''http://s//oauth/'')"
  by (simp add: constructor_def replace_last_non_slash_def one_separator_then_oauth_def
      trailing_slashes_def lit_def)

section \<open>The cookie value: encoding and decoding\<close>

lemma js_split_three:
  assumes "colon \<notin> set a" "colon \<notin> set t" "colon \<notin> set s"
  shows "js_split colon (a @ colon # t @ colon # s) = [a, t, s]"
  using assms by (simp add: js_split_append js_split_no_sep)

text \<open>
  C8, as the code has it. For strings \<open>accessToken\<close>, \<open>tokenType\<close>, \<open>scope\<close> whose code
  units are all at most 0xFF and none of which contains a colon, the encoding of
  \<open>saveToken\<close> succeeds and the decoding of \<open>login\<close> (base64 decoding, then splitting at
  the colons) gives back exactly the three strings.
\<close>

theorem decode_encode_round_trip:
  assumes bytes: "list_all (\<lambda>c. unat c < 256) (a @ t @ s)"
    and a: "colon \<notin> set a" and t: "colon \<notin> set t" and s: "colon \<notin> set s"
  shows "\<exists>c. encode_token (Str a) (Str t) (Str s) = Inr c \<and> decode_cookie c = Inr [a, t, s]"
proof -
  let ?j = "a @ colon # t @ colon # s"
  have "list_all (\<lambda>c. unat c < 256) ?j" using bytes by simp
  from atob_btoa[OF this] js_split_three[OF a t s]
  show ?thesis by (simp add: encode_token_def decode_cookie_def)
qed

theorem decode_encode_round_trip_witness:
  "list_all (\<lambda>c. unat c < 256) (lit ''tok1'' @ lit ''bearer'' @ lit ''read'')
   \<and> colon \<notin> set (lit ''tok1'') \<and> colon \<notin> set (lit ''bearer'') \<and> colon \<notin> set (lit ''read'')
   \<and> encode_token (Str (lit ''tok1'')) (Str (lit ''bearer'')) (Str (lit ''read''))
       = Inr (lit ''dG9rMTpiZWFyZXI6cmVhZA=='')
   \<and> decode_cookie (lit ''dG9rMTpiZWFyZXI6cmVhZA=='')
       = Inr [lit ''tok1'', lit ''bearer'', lit ''read'']"
proof -
  have h: "list_all (\<lambda>c. unat c < 256) (lit ''tok1'' @ lit ''bearer'' @ lit ''read'')"
    "colon \<notin> set (lit ''tok1'')" "colon \<notin> set (lit ''bearer'')" "colon \<notin> set (lit ''read'')"
    by (simp_all add: lit_def)
  have e: "encode_token (Str (lit ''tok1'')) (Str (lit ''bearer'')) (Str (lit ''read''))
       = Inr (lit ''dG9rMTpiZWFyZXI6cmVhZA=='')"
    by (simp add: encode_token_def btoa_def b64_char_def lit_def)
  from decode_encode_round_trip[OF h] e h show ?thesis by simp
qed

text \<open>
  The claim as stated (every string without a colon) fails for a string with a code unit
  above 0xFF, here the euro sign U+20AC: \<open>btoa\<close> throws, so there is nothing to decode.
\<close>

theorem encode_non_latin1_counterexample:
  "colon \<notin> set [0x20AC] \<and> colon \<notin> set (lit ''bearer'') \<and> colon \<notin> set (lit ''read'')
   \<and> encode_token (Str [0x20AC]) (Str (lit ''bearer'')) (Str (lit ''read''))
       = Inl InvalidCharacterError"
  by (simp add: encode_token_def btoa_def lit_def)

section \<open>The paths of login that set the access token\<close>

lemma saveToken_ok:
  assumes "encode_token (obj_get d (lit ''access_token'')) (obj_get d (lit ''token_type''))
             (obj_get d (lit ''scope'')) = Inr c"
  shows "saveToken self d w =
     Inr (w\<lparr>cookies := (cookies w)(COOKIE_KEY self \<mapsto>
               \<lparr>cvalue = c, written_at = clock w, lifetime = obj_get d (lit ''expires_in'')\<rparr>),
            trace := trace w @ [CookiesPut (COOKIE_KEY self)
               \<lparr>cvalue = c, written_at = clock w, lifetime = obj_get d (lit ''expires_in'')\<rparr>],
            withCredentials := True,
            Authorization := Str (lit ''Bearer '' @ ToString (obj_get d (lit ''access_token'')))\<rparr>)"
  using assms by (simp add: saveToken_def Let_def emit_def setHttpDefault_def)

lemma login_cookie_path:
  assumes nocache: "\<not> truthy (accessToken self)"
    and args: "\<not> (type_arg = Str TYPE_USER_CREDENTIALS
                   \<and> \<not> (truthy username \<and> truthy password))"
    and entry: "cookies w (COOKIE_KEY self) = Some c"
    and nonempty: "cvalue c \<noteq> []"
    and dec: "decode_cookie (cvalue c) = Inr d"
  shows "login self type_arg isTry username password w =
     \<lparr>inst = self\<lparr>accessToken := at_index d 0\<rparr>,
      env = w\<lparr>trace := trace w @ [CookiesGet (COOKIE_KEY self)],
              withCredentials := True,
              Authorization := Str (lit ''Bearer '' @ ToString (at_index d 0))\<rparr>,
      promise = Resolved, thrown = None\<rparr>"
  using assms TYPE_distinct(1)
  by (auto simp add: login_def Let_def cookies_get_def emit_def setHttpDefault_def returns_def)

lemma login_hash_path:
  assumes nocache: "\<not> truthy (accessToken self)"
    and args: "\<not> (type_arg = Str TYPE_USER_CREDENTIALS
                   \<and> \<not> (truthy username \<and> truthy password))"
    and nocookie: "\<not> truthy (cookies_get w (COOKIE_KEY self))"
    and tok: "obj_get (decodeHash (drop 1 (location_hash w))) (lit ''access_token'') = Str tok"
    and nonempty: "tok \<noteq> []"
    and enc: "encode_token (Str tok)
               (obj_get (decodeHash (drop 1 (location_hash w))) (lit ''token_type''))
               (obj_get (decodeHash (drop 1 (location_hash w))) (lit ''scope'')) = Inr c"
  shows "login self type_arg isTry username password w =
     \<lparr>inst = self\<lparr>accessToken := Str tok\<rparr>,
      env = w\<lparr>location_hash := (if ngRoute w then location_hash w else []),
              cookies := (cookies w)(COOKIE_KEY self \<mapsto>
                 \<lparr>cvalue = c, written_at = clock w,
                  lifetime = obj_get (decodeHash (drop 1 (location_hash w))) (lit ''expires_in'')\<rparr>),
              trace := trace w @ [CookiesGet (COOKIE_KEY self), HashRead, HashRead,
                 if ngRoute w then LocationServiceHash else HashAssigned,
                 CookiesPut (COOKIE_KEY self)
                 \<lparr>cvalue = c, written_at = clock w,
                  lifetime = obj_get (decodeHash (drop 1 (location_hash w))) (lit ''expires_in'')\<rparr>],
              withCredentials := True,
              Authorization := Str (lit ''Bearer '' @ tok)\<rparr>,
      promise = Resolved, thrown = None\<rparr>"
proof -
  have ne: "drop 1 (location_hash w) \<noteq> []"
  proof
    assume "drop 1 (location_hash w) = []"
    with tok show False by (simp add: decodeHash_def obj_get_def)
  qed
  let ?h = "decodeHash (drop 1 (location_hash w))"
  let ?w1 = "emit HashRead (emit HashRead (emit (CookiesGet (COOKIE_KEY self)) w))"
  let ?w4 = "if ngRoute w then emit LocationServiceHash ?w1
             else emit HashAssigned (?w1\<lparr>location_hash := []\<rparr>)"
  have enc': "encode_token (obj_get ?h (lit ''access_token'')) (obj_get ?h (lit ''token_type''))
             (obj_get ?h (lit ''scope'')) = Inr c"
    using enc tok by simp
  note sv = saveToken_ok[OF enc', of "self\<lparr>accessToken := Str tok\<rparr>" ?w4]
  show ?thesis
    using nocache args nocookie tok nonempty ne TYPE_distinct(1) sv
    by (auto simp add: login_def Let_def emit_def returns_def)
qed

lemma login_response_ok:
  assumes "encode_token (obj_get d (lit ''access_token'')) (obj_get d (lit ''token_type''))
             (obj_get d (lit ''scope'')) = Inr c"
  shows "login_response self d w =
     \<lparr>inst = self\<lparr>accessToken := obj_get d (lit ''access_token'')\<rparr>,
      env = w\<lparr>cookies := (cookies w)(COOKIE_KEY self \<mapsto>
               \<lparr>cvalue = c, written_at = clock w, lifetime = obj_get d (lit ''expires_in'')\<rparr>),
            trace := trace w @ [CookiesPut (COOKIE_KEY self)
               \<lparr>cvalue = c, written_at = clock w, lifetime = obj_get d (lit ''expires_in'')\<rparr>],
            withCredentials := True,
            Authorization := Str (lit ''Bearer '' @ ToString (obj_get d (lit ''access_token'')))\<rparr>,
      promise = Resolved, thrown = None\<rparr>"
  using saveToken_ok[OF assms, of "self\<lparr>accessToken := obj_get d (lit ''access_token'')\<rparr>" w]
  by (simp add: login_response_def Let_def returns_def)

lemma tok1_encoding:
  "encode_token (Str (lit ''tok1'')) (Str (lit ''bearer'')) (Str (lit ''read''))
     = Inr (lit ''dG9rMTpiZWFyZXI6cmVhZA=='')"
  by (simp add: encode_token_def btoa_def b64_char_def lit_def)

lemma tok1_decoding:
  "decode_cookie (lit ''dG9rMTpiZWFyZXI6cmVhZA=='')
     = Inr [lit ''tok1'', lit ''bearer'', lit ''read'']"
  by (simp add: decode_cookie_def atob_def strip_padding_def ascii_whitespace_def b64_value_def
      lit_def)

text \<open>
  C2, as the code has it. When the instance holds no access token and the cookie under
  the storage key is the encoding of \<open>('tok1', 'bearer', 'read')\<close>, \<open>login()\<close> resolves,
  \<open>accessToken\<close> becomes \<open>tok1\<close>, the default \<open>Authorization\<close> header becomes
  \<open>Bearer tok1\<close> and \<open>withCredentials\<close> is set; the only call made is the read of the
  cookie. The instance is otherwise unchanged: the token type and the scope are decoded
  and then dropped, the access token is the whole in-memory credential.
\<close>

theorem login_from_tok1_cookie:
  assumes nocache: "\<not> truthy (accessToken self)"
    and entry: "cookies w (COOKIE_KEY self) = Some c"
    and enc: "encode_token (Str (lit ''tok1'')) (Str (lit ''bearer'')) (Str (lit ''read''))
                = Inr (cvalue c)"
  shows "login self Undefined False Undefined Undefined w =
     \<lparr>inst = self\<lparr>accessToken := Str (lit ''tok1'')\<rparr>,
      env = w\<lparr>trace := trace w @ [CookiesGet (COOKIE_KEY self)],
              withCredentials := True,
              Authorization := Str (lit ''Bearer tok1'')\<rparr>,
      promise = Resolved, thrown = None\<rparr>"
proof -
  have v: "cvalue c = lit ''dG9rMTpiZWFyZXI6cmVhZA==''" using enc tok1_encoding by simp
  have ne: "cvalue c \<noteq> []" using v by (simp add: lit_def)
  have d: "decode_cookie (cvalue c) = Inr [lit ''tok1'', lit ''bearer'', lit ''read'']"
    using v tok1_decoding by simp
  have a: "\<not> (Undefined = Str TYPE_USER_CREDENTIALS \<and> \<not> (truthy Undefined \<and> truthy Undefined))"
    by simp
  show ?thesis
    using login_cookie_path[OF nocache a entry ne d, of False]
    by (simp add: at_index_def lit_def)
qed

theorem login_from_tok1_cookie_witness:
  "\<not> truthy (accessToken example_instance)
   \<and> cookies cookie_world (COOKIE_KEY example_instance) = Some tok1_cookie
   \<and> encode_token (Str (lit ''tok1'')) (Str (lit ''bearer'')) (Str (lit ''read''))
       = Inr (cvalue tok1_cookie)
   \<and> promise (login example_instance Undefined False Undefined Undefined cookie_world) = Resolved
   \<and> accessToken (inst (login example_instance Undefined False Undefined Undefined cookie_world))
       = Str (lit ''tok1'')
   \<and> Authorization (env (login example_instance Undefined False Undefined Undefined cookie_world))
       = Str (lit ''Bearer tok1'')"
proof -
  have h: "\<not> truthy (accessToken example_instance)"
    "cookies cookie_world (COOKIE_KEY example_instance) = Some tok1_cookie"
    by (simp_all add: example_instance_def cookie_world_def)
  have e: "encode_token (Str (lit ''tok1'')) (Str (lit ''bearer'')) (Str (lit ''read''))
       = Inr (cvalue tok1_cookie)"
    using tok1_encoding by (simp add: tok1_cookie_def)
  from login_from_tok1_cookie[OF h e] h e show ?thesis by simp
qed

text \<open>
  The claim as stated (the instance afterwards also holds \<open>tokenType = 'bearer'\<close> and
  \<open>scope = 'read'\<close>) fails: after this login the instance has no such properties, and
  none of its data properties has the value \<open>bearer\<close> or \<open>read\<close>.
\<close>

theorem login_from_cookie_keeps_only_token_counterexample:
  "promise (login example_instance Undefined False Undefined Undefined cookie_world) = Resolved
   \<and> data_property (inst (login example_instance Undefined False Undefined Undefined cookie_world))
       (lit ''tokenType'') = Undefined
   \<and> data_property (inst (login example_instance Undefined False Undefined Undefined cookie_world))
       (lit ''scope'') = Undefined
   \<and> (\<forall>name. data_property
         (inst (login example_instance Undefined False Undefined Undefined cookie_world)) name
          \<noteq> Str (lit ''bearer''))
   \<and> (\<forall>name. data_property
         (inst (login example_instance Undefined False Undefined Undefined cookie_world)) name
          \<noteq> Str (lit ''read''))"
proof -
  have h: "\<not> truthy (accessToken example_instance)"
    "\<not> (Undefined = Str TYPE_USER_CREDENTIALS \<and> \<not> (truthy Undefined \<and> truthy Undefined))"
    "cookies cookie_world (COOKIE_KEY example_instance) = Some tok1_cookie"
    "cvalue tok1_cookie \<noteq> []"
    by (simp_all add: example_instance_def cookie_world_def tok1_cookie_def lit_def)
  have d: "decode_cookie (cvalue tok1_cookie) = Inr [lit ''tok1'', lit ''bearer'', lit ''read'']"
    using tok1_decoding by (simp add: tok1_cookie_def)
  have r: "login example_instance Undefined False Undefined Undefined cookie_world =
      \<lparr>inst = example_instance\<lparr>accessToken := Str (lit ''tok1'')\<rparr>,
       env = cookie_world\<lparr>trace := trace cookie_world @ [CookiesGet (COOKIE_KEY example_instance)],
              withCredentials := True,
              Authorization := Str (lit ''Bearer tok1'')\<rparr>,
       promise = Resolved, thrown = None\<rparr>"
    using login_cookie_path[OF h d, of False] by (simp add: at_index_def lit_def)
  show ?thesis
    unfolding r
    by (simp add: data_property_def example_instance_def lit_def TYPE_USER_CREDENTIALS_def
        TYPE_CLIENT_CREDENTIALS_def TYPE_IMPLICIT_def AUTHORIZE_def TOKEN_def)
qed

text \<open>
  C1, as the code has it, one part for each operation that sets the access token.
  Login from the cookie sets \<open>accessToken\<close> and the \<open>Authorization\<close> header from the first
  field of the decoded cookie and leaves the store alone: it reads the entry and does not
  write it. Login from the fragment and the response callback of the token exchange go
  through \<open>saveToken\<close>: when the three fields can be encoded, the promise is resolved
  with \<open>accessToken\<close> set to the access token, the entry under the storage key written
  with the encoding of the three fields, and the header set to \<open>Bearer\<close>, a space and the
  access token.
\<close>

theorem credential_commit:
  "(\<not> truthy (accessToken self)
      \<and> \<not> (type_arg = Str TYPE_USER_CREDENTIALS \<and> \<not> (truthy username \<and> truthy password))
      \<and> cookies w (COOKIE_KEY self) = Some c \<and> cvalue c \<noteq> []
      \<and> decode_cookie (cvalue c) = Inr d
    \<longrightarrow> promise (login self type_arg isTry username password w) = Resolved
      \<and> accessToken (inst (login self type_arg isTry username password w)) = at_index d 0
      \<and> Authorization (env (login self type_arg isTry username password w))
          = Str (lit ''Bearer '' @ ToString (at_index d 0))
      \<and> cookies (env (login self type_arg isTry username password w)) = cookies w
      \<and> trace (env (login self type_arg isTry username password w))
          = trace w @ [CookiesGet (COOKIE_KEY self)])
   \<and> (\<not> truthy (accessToken self)
      \<and> \<not> (type_arg = Str TYPE_USER_CREDENTIALS \<and> \<not> (truthy username \<and> truthy password))
      \<and> \<not> truthy (cookies_get w (COOKIE_KEY self))
      \<and> obj_get (decodeHash (drop 1 (location_hash w))) (lit ''access_token'') = Str tok
      \<and> tok \<noteq> []
      \<and> encode_token (Str tok)
            (obj_get (decodeHash (drop 1 (location_hash w))) (lit ''token_type''))
            (obj_get (decodeHash (drop 1 (location_hash w))) (lit ''scope'')) = Inr v
    \<longrightarrow> promise (login self type_arg isTry username password w) = Resolved
      \<and> accessToken (inst (login self type_arg isTry username password w)) = Str tok
      \<and> Authorization (env (login self type_arg isTry username password w))
          = Str (lit ''Bearer '' @ tok)
      \<and> cookies (env (login self type_arg isTry username password w)) (COOKIE_KEY self)
          = Some \<lparr>cvalue = v, written_at = clock w,
                  lifetime = obj_get (decodeHash (drop 1 (location_hash w))) (lit ''expires_in'')\<rparr>)
   \<and> (encode_token (obj_get rdata (lit ''access_token'')) (obj_get rdata (lit ''token_type''))
            (obj_get rdata (lit ''scope'')) = Inr u
    \<longrightarrow> promise (login_response self rdata w) = Resolved
      \<and> accessToken (inst (login_response self rdata w)) = obj_get rdata (lit ''access_token'')
      \<and> Authorization (env (login_response self rdata w))
          = Str (lit ''Bearer '' @ ToString (obj_get rdata (lit ''access_token'')))
      \<and> cookies (env (login_response self rdata w)) (COOKIE_KEY self)
          = Some \<lparr>cvalue = u, written_at = clock w,
                  lifetime = obj_get rdata (lit ''expires_in'')\<rparr>)"
proof (intro conjI impI)
  assume h: "\<not> truthy (accessToken self)
      \<and> \<not> (type_arg = Str TYPE_USER_CREDENTIALS \<and> \<not> (truthy username \<and> truthy password))
      \<and> cookies w (COOKIE_KEY self) = Some c \<and> cvalue c \<noteq> []
      \<and> decode_cookie (cvalue c) = Inr d"
  then have r: "login self type_arg isTry username password w =
     \<lparr>inst = self\<lparr>accessToken := at_index d 0\<rparr>,
      env = w\<lparr>trace := trace w @ [CookiesGet (COOKIE_KEY self)],
              withCredentials := True,
              Authorization := Str (lit ''Bearer '' @ ToString (at_index d 0))\<rparr>,
      promise = Resolved, thrown = None\<rparr>"
    using login_cookie_path[of self type_arg username password w c d isTry] by blast
  show "promise (login self type_arg isTry username password w) = Resolved"
    "accessToken (inst (login self type_arg isTry username password w)) = at_index d 0"
    "Authorization (env (login self type_arg isTry username password w))
          = Str (lit ''Bearer '' @ ToString (at_index d 0))"
    "cookies (env (login self type_arg isTry username password w)) = cookies w"
    "trace (env (login self type_arg isTry username password w))
          = trace w @ [CookiesGet (COOKIE_KEY self)]"
    unfolding r by simp_all
next
  assume h: "\<not> truthy (accessToken self)
      \<and> \<not> (type_arg = Str TYPE_USER_CREDENTIALS \<and> \<not> (truthy username \<and> truthy password))
      \<and> \<not> truthy (cookies_get w (COOKIE_KEY self))
      \<and> obj_get (decodeHash (drop 1 (location_hash w))) (lit ''access_token'') = Str tok
      \<and> tok \<noteq> []
      \<and> encode_token (Str tok)
            (obj_get (decodeHash (drop 1 (location_hash w))) (lit ''token_type''))
            (obj_get (decodeHash (drop 1 (location_hash w))) (lit ''scope'')) = Inr v"
  note r = login_hash_path[of self type_arg username password w tok v isTry]
  show "promise (login self type_arg isTry username password w) = Resolved"
    "accessToken (inst (login self type_arg isTry username password w)) = Str tok"
    "Authorization (env (login self type_arg isTry username password w))
          = Str (lit ''Bearer '' @ tok)"
    "cookies (env (login self type_arg isTry username password w)) (COOKIE_KEY self)
          = Some \<lparr>cvalue = v, written_at = clock w,
                  lifetime = obj_get (decodeHash (drop 1 (location_hash w))) (lit ''expires_in'')\<rparr>"
    using h r by simp_all
next
  assume h: "encode_token (obj_get rdata (lit ''access_token'')) (obj_get rdata (lit ''token_type''))
            (obj_get rdata (lit ''scope'')) = Inr u"
  note r = login_response_ok[OF h, of self w]
  show "promise (login_response self rdata w) = Resolved"
    "accessToken (inst (login_response self rdata w)) = obj_get rdata (lit ''access_token'')"
    "Authorization (env (login_response self rdata w))
          = Str (lit ''Bearer '' @ ToString (obj_get rdata (lit ''access_token'')))"
    "cookies (env (login_response self rdata w)) (COOKIE_KEY self)
          = Some \<lparr>cvalue = u, written_at = clock w,
                  lifetime = obj_get rdata (lit ''expires_in'')\<rparr>"
    unfolding r by simp_all
qed

lemma fragment_world_token:
  "obj_get (decodeHash (drop (Suc 0) (location_hash fragment_world))) (lit ''access_token'')
     = Str (lit ''tok2'')"
  "obj_get (decodeHash (drop (Suc 0) (location_hash fragment_world))) (lit ''token_type'')
     = Str (lit ''bearer'')"
  "obj_get (decodeHash (drop (Suc 0) (location_hash fragment_world))) (lit ''scope'') = Undefined"
  "obj_get (decodeHash (drop (Suc 0) (location_hash fragment_world))) (lit ''expires_in'') = Undefined"
  by (simp_all add: fragment_world_def example_world_def decodeHash_def obj_get_def obj_set_def
      at_index_def lit_def)

lemma tok2_encoding:
  "encode_token (Str (lit ''tok2'')) (Str (lit ''bearer'')) Undefined
     = Inr (lit ''dG9rMjpiZWFyZXI6'')"
  by (simp add: encode_token_def btoa_def b64_char_def lit_def)

lemma tok3_encoding:
  "encode_token (Str (lit ''tok3'')) (Str (lit ''bearer'')) (Str (lit ''read''))
     = Inr (lit ''dG9rMzpiZWFyZXI6cmVhZA=='')"
  by (simp add: encode_token_def btoa_def b64_char_def lit_def)

lemma token_response_fields:
  "obj_get token_response (lit ''access_token'') = Str (lit ''tok3'')"
  "obj_get token_response (lit ''token_type'') = Str (lit ''bearer'')"
  "obj_get token_response (lit ''scope'') = Str (lit ''read'')"
  "obj_get token_response (lit ''expires_in'') = Str (lit ''3600'')"
  by (simp_all add: token_response_def obj_get_def lit_def)

theorem credential_commit_witness:
  "accessToken (inst (login example_instance Undefined False Undefined Undefined cookie_world))
     = Str (lit ''tok1'')
   \<and> Authorization (env (login example_instance Undefined False Undefined Undefined cookie_world))
     = Str (lit ''Bearer tok1'')
   \<and> cookies (env (login example_instance Undefined False Undefined Undefined cookie_world))
     = cookies cookie_world
   \<and> accessToken (inst (login example_instance Undefined False Undefined Undefined fragment_world))
     = Str (lit ''tok2'')
   \<and> Authorization (env (login example_instance Undefined False Undefined Undefined fragment_world))
     = Str (lit ''Bearer tok2'')
   \<and> cookies (env (login example_instance Undefined False Undefined Undefined fragment_world))
       (lit ''qOAuth2'')
     = Some \<lparr>cvalue = lit ''dG9rMjpiZWFyZXI6'', written_at = 0, lifetime = Undefined\<rparr>
   \<and> accessToken (inst (login_response secret_instance token_response example_world))
     = Str (lit ''tok3'')
   \<and> Authorization (env (login_response secret_instance token_response example_world))
     = Str (lit ''Bearer tok3'')
   \<and> cookies (env (login_response secret_instance token_response example_world)) (lit ''qOAuth2'')
     = Some \<lparr>cvalue = lit ''dG9rMzpiZWFyZXI6cmVhZA=='', written_at = 0,
             lifetime = Str (lit ''3600'')\<rparr>"
proof -
  have a: "\<not> truthy (accessToken example_instance)"
    "\<not> (Undefined = Str TYPE_USER_CREDENTIALS \<and> \<not> (truthy Undefined \<and> truthy Undefined))"
    by (simp_all add: example_instance_def)
  have c: "cookies cookie_world (COOKIE_KEY example_instance) = Some tok1_cookie"
    "cvalue tok1_cookie \<noteq> []"
    "decode_cookie (cvalue tok1_cookie) = Inr [lit ''tok1'', lit ''bearer'', lit ''read'']"
    using tok1_decoding
    by (simp_all add: example_instance_def cookie_world_def tok1_cookie_def lit_def)
  have f0: "\<not> truthy (cookies_get fragment_world (COOKIE_KEY example_instance))"
    "lit ''tok2'' \<noteq> []"
    by (simp_all add: cookies_get_def fragment_world_def example_world_def lit_def)
  have f1: "encode_token (Str (lit ''tok2''))
       (obj_get (decodeHash (drop 1 (location_hash fragment_world))) (lit ''token_type''))
       (obj_get (decodeHash (drop 1 (location_hash fragment_world))) (lit ''scope''))
     = Inr (lit ''dG9rMjpiZWFyZXI6'')"
    using tok2_encoding by (simp add: fragment_world_token)
  note f = f0 f1
  have r: "encode_token (obj_get token_response (lit ''access_token''))
       (obj_get token_response (lit ''token_type'')) (obj_get token_response (lit ''scope''))
     = Inr (lit ''dG9rMzpiZWFyZXI6cmVhZA=='')"
    using tok3_encoding by (simp add: token_response_fields)
  have k: "COOKIE_KEY example_instance = lit ''qOAuth2''" "COOKIE_KEY secret_instance = lit ''qOAuth2''"
    "clock fragment_world = 0" "clock example_world = 0"
    by (simp_all add: example_instance_def secret_instance_def fragment_world_def example_world_def)
  have t0: "at_index [lit ''tok1'', lit ''bearer'', lit ''read''] 0 = Str (lit ''tok1'')"
    "lit ''Bearer '' @ lit ''tok1'' = lit ''Bearer tok1''"
    "lit ''Bearer '' @ lit ''tok2'' = lit ''Bearer tok2''"
    "lit ''Bearer '' @ lit ''tok3'' = lit ''Bearer tok3''"
    by (simp_all add: at_index_def lit_def)
  show ?thesis
    using credential_commit[where self = example_instance and type_arg = Undefined
        and isTry = False and username = Undefined and password = Undefined
        and w = cookie_world and c = tok1_cookie
        and d = "[lit ''tok1'', lit ''bearer'', lit ''read'']"]
      credential_commit[where self = example_instance and type_arg = Undefined
        and isTry = False and username = Undefined and password = Undefined
        and w = fragment_world and tok = "lit ''tok2''" and v = "lit ''dG9rMjpiZWFyZXI6''"]
      credential_commit[where self = secret_instance and rdata = token_response
        and w = example_world and u = "lit ''dG9rMzpiZWFyZXI6cmVhZA==''"]
      a c f r
    by (simp add: k t0 fragment_world_token token_response_fields)
qed

text \<open>
  The claim as stated (every operation that sets the credential also writes the store
  entry) fails for the login from the cookie: the access token is set, and the one call
  made is \<open>$cookies.get\<close>; there is no \<open>$cookies.put\<close>.
\<close>

theorem login_from_cookie_writes_no_cookie_counterexample:
  "promise (login example_instance Undefined False Undefined Undefined cookie_world) = Resolved
   \<and> accessToken (inst (login example_instance Undefined False Undefined Undefined cookie_world))
       = Str (lit ''tok1'')
   \<and> trace (env (login example_instance Undefined False Undefined Undefined cookie_world))
       = [CookiesGet (lit ''qOAuth2'')]"
proof -
  have h: "\<not> truthy (accessToken example_instance)"
    "\<not> (Undefined = Str TYPE_USER_CREDENTIALS \<and> \<not> (truthy Undefined \<and> truthy Undefined))"
    "cookies cookie_world (COOKIE_KEY example_instance) = Some tok1_cookie"
    "cvalue tok1_cookie \<noteq> []"
    by (simp_all add: example_instance_def cookie_world_def tok1_cookie_def lit_def)
  have d: "decode_cookie (cvalue tok1_cookie) = Inr [lit ''tok1'', lit ''bearer'', lit ''read'']"
    using tok1_decoding by (simp add: tok1_cookie_def)
  show ?thesis
    using login_cookie_path[OF h d, of False]
    by (simp add: at_index_def cookie_world_def example_world_def example_instance_def)
qed

section \<open>The fast path, try mode and the unknown grant type\<close>

text \<open>
  C6. When the instance already holds an access token, \<open>login()\<close> resolves and nothing
  else happens: the instance and the whole outside world, its cookie store, its location
  and its list of calls included, are what they were, so no cookie was read or written,
  the hash was not read or cleared, and no request was sent. The same holds for every
  call that passes the argument check at the top of \<open>login\<close>, whatever the grant type and
  the try flag.
\<close>

theorem login_cached_fast_path:
  assumes cached: "truthy (accessToken self)"
    and args: "\<not> (type_arg = Str TYPE_USER_CREDENTIALS
                   \<and> \<not> (truthy username \<and> truthy password))"
  shows "promise (login self type_arg isTry username password w) = Resolved
       \<and> thrown (login self type_arg isTry username password w) = None
       \<and> inst (login self type_arg isTry username password w) = self
       \<and> env (login self type_arg isTry username password w) = w"
  using cached args TYPE_distinct(1)
  by (auto simp add: login_def Let_def returns_def)

theorem login_cached_fast_path_witness:
  "truthy (accessToken cached_instance)
   \<and> promise (login cached_instance Undefined False Undefined Undefined example_world)
       = Resolved
   \<and> env (login cached_instance Undefined False Undefined Undefined example_world)
       = example_world"
  using login_cached_fast_path [where self = cached_instance and type_arg = Undefined
      and username = Undefined and password = Undefined and isTry = False
      and w = example_world]
  by (simp add: cached_instance_def lit_def)

text \<open>
  C5. With no access token in memory, no cookie under the storage key and an empty
  fragment, \<open>tryLogin()\<close>, and likewise \<open>login\<close> called with \<open>isTry\<close> set and arguments
  that pass the argument check, rejects its promise with no reason (\<open>reject()\<close>), which
  is how the code signals that no credential is available. The only calls made are the
  read of the cookie and the read of the hash: the location is not assigned, the page is
  not reloaded, no request is sent.
\<close>

theorem tryLogin_no_credential:
  assumes nocache: "\<not> truthy (accessToken self)"
    and nocookie: "cookies w (COOKIE_KEY self) = None"
    and nohash: "location_hash w = []"
    and args: "\<not> (type_arg = Str TYPE_USER_CREDENTIALS
                   \<and> \<not> (truthy username \<and> truthy password))"
  shows "tryLogin self Undefined w =
           \<lparr>inst = self,
            env = w\<lparr>trace := trace w @ [CookiesGet (COOKIE_KEY self), HashRead]\<rparr>,
            promise = Rejected Undefined, thrown = None\<rparr>
       \<and> login self type_arg True username password w =
           \<lparr>inst = self,
            env = w\<lparr>trace := trace w @ [CookiesGet (COOKIE_KEY self), HashRead]\<rparr>,
            promise = Rejected Undefined, thrown = None\<rparr>"
  using nocache nocookie nohash args TYPE_distinct(1)
  by (auto simp add: login_def tryLogin_def Let_def cookies_get_def emit_def returns_def)

theorem tryLogin_no_credential_witness:
  "\<not> truthy (accessToken example_instance)
   \<and> cookies example_world (COOKIE_KEY example_instance) = None
   \<and> location_hash example_world = []
   \<and> promise (tryLogin example_instance Undefined example_world) = Rejected Undefined
   \<and> trace (env (tryLogin example_instance Undefined example_world))
       = [CookiesGet (lit ''qOAuth2''), HashRead]
   \<and> location_href (env (tryLogin example_instance Undefined example_world))
       = location_href example_world"
  using tryLogin_no_credential [where self = example_instance and w = example_world
      and type_arg = Undefined and username = Undefined and password = Undefined]
  by (simp add: example_instance_def example_world_def)

text \<open>
  C10. When \<open>type\<close> is given and is none of \<open>'client_credentials'\<close>, \<open>'password'\<close> and
  \<open>'token'\<close>, \<open>isTry\<close> is false, and neither the instance, nor the cookie, nor the
  fragment yields an access token, the \<open>switch\<close> takes its \<open>default\<close> branch: the promise
  is left pending, nothing was thrown, and the only calls made are the reads of the cookie
  and of the hash. No request was sent, so no callback is left that could settle the
  promise later.
\<close>

theorem login_unknown_type_never_settles:
  assumes t0: "type_arg \<noteq> Undefined"
    and t1: "type_arg \<noteq> Str TYPE_CLIENT_CREDENTIALS"
    and t2: "type_arg \<noteq> Str TYPE_USER_CREDENTIALS"
    and t3: "type_arg \<noteq> Str TYPE_IMPLICIT"
    and nocache: "\<not> truthy (accessToken self)"
    and nocookie: "\<not> truthy (cookies_get w (COOKIE_KEY self))"
    and nohash: "\<not> truthy (obj_get (decodeHash (drop 1 (location_hash w)))
                     (lit ''access_token''))"
  shows "login self type_arg False username password w =
           \<lparr>inst = self,
            env = w\<lparr>trace := trace w @ CookiesGet (COOKIE_KEY self) # HashRead #
                     (if drop 1 (location_hash w) = [] then [] else [HashRead])\<rparr>,
            promise = Pending, thrown = None\<rparr>"
  using assms
  by (auto simp add: login_def Let_def emit_def token_from_server_def returns_def)

theorem login_unknown_type_never_settles_witness:
  "Str (lit ''refresh_token'') \<noteq> Str TYPE_CLIENT_CREDENTIALS
   \<and> Str (lit ''refresh_token'') \<noteq> Str TYPE_USER_CREDENTIALS
   \<and> Str (lit ''refresh_token'') \<noteq> Str TYPE_IMPLICIT
   \<and> promise (login example_instance (Str (lit ''refresh_token'')) False Undefined Undefined
        example_world) = Pending
   \<and> trace (env (login example_instance (Str (lit ''refresh_token'')) False Undefined
        Undefined example_world)) = [CookiesGet (lit ''qOAuth2''), HashRead]"
proof -
  have d: "Str (lit ''refresh_token'') \<noteq> Str TYPE_CLIENT_CREDENTIALS"
    "Str (lit ''refresh_token'') \<noteq> Str TYPE_USER_CREDENTIALS"
    "Str (lit ''refresh_token'') \<noteq> Str TYPE_IMPLICIT"
    by (simp_all add: TYPE_CLIENT_CREDENTIALS_def TYPE_USER_CREDENTIALS_def TYPE_IMPLICIT_def
        lit_def)
  have c: "\<not> truthy (accessToken example_instance)"
    "\<not> truthy (cookies_get example_world (COOKIE_KEY example_instance))"
    "\<not> truthy (obj_get (decodeHash (drop 1 (location_hash example_world)))
          (lit ''access_token''))"
    by (simp_all add: example_instance_def example_world_def cookies_get_def decodeHash_def
        obj_get_def)
  show ?thesis
    using d login_unknown_type_never_settles [where self = example_instance
        and w = example_world and type_arg = "Str (lit ''refresh_token'')"
        and username = Undefined and password = Undefined, OF _ d c]
    by (simp add: example_instance_def example_world_def)
qed

section \<open>The token exchange\<close>

text \<open>
  C4, what the code does. \<open>login('password', false, username, password)\<close> with both
  credentials given, no client secret set and no access token found in memory, in the
  cookie or in the fragment, reaches the \<open>else\<close> branch of \<open>if (this.CLIENT_SECRET)\<close>:
  it writes \<open>OAuth: please provide the client secret.\<close> to the console and returns. No
  request is sent, as the claim says; but neither \<open>resolve\<close> nor \<open>reject\<close> is called, so
  the promise stays pending and the failure does not reach the caller.
\<close>

theorem login_password_without_secret:
  assumes user: "truthy username" and pass: "truthy password"
    and nosecret: "\<not> truthy (CLIENT_SECRET self)"
    and nocache: "\<not> truthy (accessToken self)"
    and nocookie: "\<not> truthy (cookies_get w (COOKIE_KEY self))"
    and nohash: "\<not> truthy (obj_get (decodeHash (drop 1 (location_hash w)))
                     (lit ''access_token''))"
  shows "login self (Str TYPE_USER_CREDENTIALS) False username password w =
           \<lparr>inst = self,
            env = w\<lparr>trace := trace w @ CookiesGet (COOKIE_KEY self) # HashRead #
                     (if drop 1 (location_hash w) = [] then [] else [HashRead]) @
                     [ConsoleError (Str (lit ''OAuth: please provide the client secret.''))]\<rparr>,
            promise = Pending, thrown = None\<rparr>"
  using assms
  by (auto simp add: login_def Let_def emit_def token_from_server_def exchange_def returns_def)

theorem login_password_without_secret_witness:
  "truthy (Str (lit ''u'')) \<and> truthy (Str (lit ''p''))
   \<and> CLIENT_SECRET example_instance = Undefined
   \<and> promise (login example_instance (Str (lit ''password'')) False (Str (lit ''u''))
        (Str (lit ''p'')) example_world) = Pending
   \<and> thrown (login example_instance (Str (lit ''password'')) False (Str (lit ''u''))
        (Str (lit ''p'')) example_world) = None
   \<and> trace (env (login example_instance (Str (lit ''password'')) False (Str (lit ''u''))
        (Str (lit ''p'')) example_world))
       = [CookiesGet (lit ''qOAuth2''), HashRead,
          ConsoleError (Str (lit ''OAuth: please provide the client secret.''))]"
proof -
  have h: "truthy (Str (lit ''u''))" "truthy (Str (lit ''p''))"
    "\<not> truthy (CLIENT_SECRET example_instance)"
    "\<not> truthy (accessToken example_instance)"
    "\<not> truthy (cookies_get example_world (COOKIE_KEY example_instance))"
    "\<not> truthy (obj_get (decodeHash (drop 1 (location_hash example_world)))
          (lit ''access_token''))"
    by (simp_all add: example_instance_def example_world_def cookies_get_def decodeHash_def
        obj_get_def lit_def)
  have t: "Str (lit ''password'') = Str TYPE_USER_CREDENTIALS"
    by (simp add: TYPE_USER_CREDENTIALS_def)
  show ?thesis
    using login_password_without_secret[OF h] h
    by (simp add: t example_instance_def example_world_def)
qed

text \<open>Where a request can come from: only the \<open>$http\<close> call after the \<open>switch\<close>.\<close>

lemma token_request_globals:
  assumes "globals w' = globals w"
  shows "token_request ty d w' = token_request ty d w"
proof -
  have g: "\<And>n. global_ref w' n = global_ref w n"
    using assms by (simp add: global_ref_def)
  show ?thesis unfolding token_request_def g by (rule refl)
qed

lemma exchange_post:
  assumes "HttpPost q \<in> set (trace (env (exchange self ty d w)))"
    and "HttpPost q \<notin> set (trace w)"
  shows "token_request ty d w = Inr q"
  using assms
  by (auto simp add: exchange_def returns_def throws_def emit_def split: if_splits sum.splits)

lemma token_from_server_post:
  assumes "HttpPost q \<in> set (trace (env (token_from_server self type username password w)))"
    and "HttpPost q \<notin> set (trace w)"
  shows "type = Str TYPE_USER_CREDENTIALS
           \<and> token_request TYPE_USER_CREDENTIALS
                [(lit ''username'', username), (lit ''password'', password)] w = Inr q
         \<or> type = Str TYPE_CLIENT_CREDENTIALS
           \<and> token_request TYPE_CLIENT_CREDENTIALS [] w = Inr q"
proof -
  consider (u) "type = Str TYPE_USER_CREDENTIALS"
    | (c) "type \<noteq> Str TYPE_USER_CREDENTIALS" "type = Str TYPE_CLIENT_CREDENTIALS"
    | (i) "type \<noteq> Str TYPE_USER_CREDENTIALS" "type \<noteq> Str TYPE_CLIENT_CREDENTIALS"
    by blast
  then show ?thesis
  proof cases
    case u
    with assms show ?thesis
      using exchange_post[of q self TYPE_USER_CREDENTIALS _ w]
      by (simp add: token_from_server_def)
  next
    case c
    with assms show ?thesis
      using exchange_post[of q self TYPE_CLIENT_CREDENTIALS "[]" w]
      by (simp add: token_from_server_def)
  next
    case i
    with assms show ?thesis
      by (auto simp add: token_from_server_def returns_def throws_def emit_def Let_def
          split: if_splits sum.splits)
  qed
qed

lemma saveToken_trace:
  "saveToken self d w = Inr w' \<Longrightarrow> HttpPost q \<in> set (trace w') \<Longrightarrow> HttpPost q \<in> set (trace w)"
  by (auto simp add: saveToken_def Let_def emit_def setHttpDefault_def split: sum.splits)

lemma login_exhausted:
  assumes args: "\<not> ((if type_arg = Undefined then Str TYPE_IMPLICIT else type_arg)
                      = Str TYPE_USER_CREDENTIALS \<and> \<not> (truthy username \<and> truthy password))"
    and nocache: "\<not> truthy (accessToken self)"
    and nocookie: "\<not> truthy (cookies_get w (COOKIE_KEY self))"
    and nohash: "\<not> (drop 1 (location_hash w) \<noteq> []
                   \<and> truthy (obj_get (decodeHash (drop 1 (location_hash w)))
                        (lit ''access_token'')))"
    and notry: "\<not> isTry"
  shows "login self type_arg isTry username password w =
           token_from_server self (if type_arg = Undefined then Str TYPE_IMPLICIT else type_arg)
             username password
             (w\<lparr>trace := trace w @ CookiesGet (COOKIE_KEY self) # HashRead #
                  (if drop 1 (location_hash w) = [] then [] else [HashRead])\<rparr>)"
proof (cases "type_arg = Undefined")
  case True
  with assms show ?thesis using TYPE_distinct(1)
    by (cases "drop 1 (location_hash w) = []") (auto simp add: login_def Let_def emit_def)
next
  case False
  with assms show ?thesis
    by (cases "drop 1 (location_hash w) = []") (auto simp add: login_def Let_def emit_def)
qed

lemma login_not_exhausted:
  assumes "(if type_arg = Undefined then Str TYPE_IMPLICIT else type_arg)
                      = Str TYPE_USER_CREDENTIALS \<and> \<not> (truthy username \<and> truthy password)
     \<or> truthy (accessToken self)
     \<or> truthy (cookies_get w (COOKIE_KEY self))
     \<or> (drop 1 (location_hash w) \<noteq> []
                   \<and> truthy (obj_get (decodeHash (drop 1 (location_hash w)))
                        (lit ''access_token'')))
     \<or> isTry"
    and fresh: "HttpPost q \<notin> set (trace w)"
  shows "HttpPost q \<notin> set (trace (env (login self type_arg isTry username password w)))"
proof -
  define ty where "ty = (if type_arg = Undefined then Str TYPE_IMPLICIT else type_arg)"
  have L: "login self type_arg isTry username password w =
     (if ty = Str TYPE_USER_CREDENTIALS \<and> \<not> (truthy username \<and> truthy password) then
        returns self w (Rejected (Str (lit ''Username and password not provided'')))
      else if truthy (accessToken self) then
        returns self w Resolved
      else
        let cookie = cookies_get w (COOKIE_KEY self);
            w1 = emit (CookiesGet (COOKIE_KEY self)) w
        in
        if truthy cookie then
          (case decode_cookie (ToString cookie) of
             Inl e \<Rightarrow> throws self w1 e
           | Inr d \<Rightarrow>
               returns (self\<lparr>accessToken := at_index d 0\<rparr>)
                 (setHttpDefault (at_index d 0) w1) Resolved)
        else
          let hash = drop 1 (location_hash w1);
              w2 = emit HashRead w1;
              hashObj = decodeHash (drop 1 (location_hash w2));
              w3 = emit HashRead w2
          in
          if hash \<noteq> [] \<and> truthy (obj_get hashObj (lit ''access_token'')) then
            (let w4 = (if ngRoute w3 then emit LocationServiceHash w3
                       else emit HashAssigned (w3\<lparr>location_hash := []\<rparr>));
                 self1 = self\<lparr>accessToken := obj_get hashObj (lit ''access_token'')\<rparr>
             in
             case saveToken self1 hashObj w4 of
               Inl e \<Rightarrow> throws self1 w4 e
             | Inr w5 \<Rightarrow> returns self1 w5 Resolved)
          else
            let w6 = (if hash \<noteq> [] then w3 else w2) in
            if isTry then returns self w6 (Rejected Undefined)
            else token_from_server self ty username password w6)"
    unfolding login_def ty_def Let_def by (rule refl)
  let ?A = "ty = Str TYPE_USER_CREDENTIALS \<and> \<not> (truthy username \<and> truthy password)"
  let ?B = "truthy (accessToken self)"
  let ?C = "truthy (cookies_get w (COOKIE_KEY self))"
  let ?D = "drop 1 (location_hash w) \<noteq> []
                   \<and> truthy (obj_get (decodeHash (drop 1 (location_hash w)))
                        (lit ''access_token''))"
  consider (a) ?A | (b) "\<not> ?A" ?B | (c) "\<not> ?A" "\<not> ?B" ?C
    | (d) "\<not> ?A" "\<not> ?B" "\<not> ?C" ?D | (e) "\<not> ?A" "\<not> ?B" "\<not> ?C" "\<not> ?D" isTry
    using assms(1) unfolding ty_def by blast
  then show ?thesis
  proof cases
    case a
    then show ?thesis using fresh by (simp add: L Let_def returns_def)
  next
    case b
    then show ?thesis using fresh by (auto simp add: L Let_def returns_def)
  next
    case c
    then show ?thesis using fresh
      by (auto simp add: L Let_def returns_def throws_def emit_def setHttpDefault_def
          split: sum.splits)
  next
    case d
    have sv: "\<And>s d v v'. saveToken s d v = Inr v' \<Longrightarrow> HttpPost q \<notin> set (trace v)
       \<Longrightarrow> HttpPost q \<notin> set (trace v')"
      using saveToken_trace by blast
    let ?w3 = "emit HashRead (emit HashRead (emit (CookiesGet (COOKIE_KEY self)) w))"
    let ?w4 = "if ngRoute ?w3 then emit LocationServiceHash ?w3
               else emit HashAssigned (?w3\<lparr>location_hash := []\<rparr>)"
    let ?s1 = "self\<lparr>accessToken := obj_get (decodeHash (drop 1 (location_hash w)))
                  (lit ''access_token'')\<rparr>"
    have f4: "HttpPost q \<notin> set (trace ?w4)" using fresh by (simp add: emit_def)
    have l: "login self type_arg isTry username password w =
        (case saveToken ?s1 (decodeHash (drop 1 (location_hash w))) ?w4 of
           Inl e \<Rightarrow> throws ?s1 ?w4 e
         | Inr w5 \<Rightarrow> returns ?s1 w5 Resolved)"
      using d by (auto simp add: L Let_def emit_def cong: sum.case_cong)
    show ?thesis
    proof (cases "saveToken ?s1 (decodeHash (drop 1 (location_hash w))) ?w4")
      case (Inl e)
      then show ?thesis using f4 unfolding l by (simp add: throws_def)
    next
      case (Inr w5)
      then show ?thesis using sv[OF Inr f4] unfolding l by (simp add: returns_def)
    qed
  next
    case e
    then show ?thesis using fresh unfolding L
      by (auto simp add: Let_def returns_def emit_def)
  qed
qed

lemma login_post:
  assumes sent: "HttpPost q \<in> set (trace (env (login self type_arg isTry username password w)))"
    and fresh: "HttpPost q \<notin> set (trace w)"
  shows "type_arg = Str TYPE_USER_CREDENTIALS
           \<and> token_request TYPE_USER_CREDENTIALS
                [(lit ''username'', username), (lit ''password'', password)] w = Inr q
         \<or> type_arg = Str TYPE_CLIENT_CREDENTIALS
           \<and> token_request TYPE_CLIENT_CREDENTIALS [] w = Inr q"
proof -
  let ?type = "if type_arg = Undefined then Str TYPE_IMPLICIT else type_arg"
  let ?w6 = "w\<lparr>trace := trace w @ CookiesGet (COOKIE_KEY self) # HashRead #
                  (if drop 1 (location_hash w) = [] then [] else [HashRead])\<rparr>"
  have ex: "\<not> ((?type = Str TYPE_USER_CREDENTIALS \<and> \<not> (truthy username \<and> truthy password))
     \<or> truthy (accessToken self)
     \<or> truthy (cookies_get w (COOKIE_KEY self))
     \<or> (drop 1 (location_hash w) \<noteq> []
                   \<and> truthy (obj_get (decodeHash (drop 1 (location_hash w)))
                        (lit ''access_token'')))
     \<or> isTry)"
    using login_not_exhausted[OF _ fresh, of type_arg username password self isTry] sent
    by blast
  then have l: "login self type_arg isTry username password w =
      token_from_server self ?type username password ?w6"
    using login_exhausted[of type_arg username password self w isTry] by blast
  have f6: "HttpPost q \<notin> set (trace ?w6)" using fresh by simp
  have g6: "globals ?w6 = globals w" by simp
  from sent have "HttpPost q \<in> set (trace (env (token_from_server self ?type username password ?w6)))"
    unfolding l .
  from token_from_server_post[OF this f6]
  have "?type = Str TYPE_USER_CREDENTIALS
           \<and> token_request TYPE_USER_CREDENTIALS
                [(lit ''username'', username), (lit ''password'', password)] w = Inr q
         \<or> ?type = Str TYPE_CLIENT_CREDENTIALS
           \<and> token_request TYPE_CLIENT_CREDENTIALS [] w = Inr q"
    unfolding token_request_globals[OF g6] .
  then show ?thesis using TYPE_distinct by (auto split: if_splits)
qed

lemma token_request_Inr:
  assumes "token_request ty d w = Inr q"
  shows "\<exists>g_id g_secret b.
           globals w (lit ''CLIENT_ID'') = Some g_id
         \<and> globals w (lit ''CLIENT_SECRET'') = Some g_secret
         \<and> btoa (g_id @ lit '':'' @ g_secret) = Inr b
         \<and> req_Authorization q = lit ''Basic'' @ b
         \<and> req_data q = d @ [(lit ''grant_type'', Str ty)]"
  using assms
  by (auto simp add: token_request_def global_ref_def split: option.splits sum.splits)

lemma no_space_after_Basic: "lit ''Basic'' @ b \<noteq> lit ''Basic '' @ b"
proof
  assume "lit ''Basic'' @ b = lit ''Basic '' @ b"
  then have "length (lit ''Basic'' @ b) = length (lit ''Basic '' @ b)" by simp
  then show False by (simp add: lit_def)
qed

text \<open>
  C9, what the code does. Every request that \<open>login\<close> sends comes from the \<open>$http\<close> call
  after the \<open>switch\<close>, for the grant type \<open>'password'\<close> or \<open>'client_credentials'\<close>. Its
  body is \<open>grant_type\<close>, preceded by \<open>username\<close> and \<open>password\<close> for \<open>'password'\<close>, as the
  claim says. Its \<open>Authorization\<close> header is \<open>Basic\<close> followed directly, with no space, by
  the base64 of \<open>CLIENT_ID:CLIENT_SECRET\<close>, and these two are the global variables of
  that name, not the properties of the instance.
\<close>

theorem token_request_header_has_no_space:
  assumes sent: "HttpPost q \<in> set (trace (env (login self type_arg isTry username password w)))"
    and fresh: "HttpPost q \<notin> set (trace w)"
  shows "\<exists>g_id g_secret b.
           globals w (lit ''CLIENT_ID'') = Some g_id
         \<and> globals w (lit ''CLIENT_SECRET'') = Some g_secret
         \<and> btoa (g_id @ lit '':'' @ g_secret) = Inr b
         \<and> req_Authorization q = lit ''Basic'' @ b
         \<and> req_Authorization q \<noteq> lit ''Basic '' @ b
         \<and> (type_arg = Str TYPE_USER_CREDENTIALS
               \<and> req_data q = [(lit ''username'', username), (lit ''password'', password),
                                (lit ''grant_type'', Str TYPE_USER_CREDENTIALS)]
             \<or> type_arg = Str TYPE_CLIENT_CREDENTIALS
               \<and> req_data q = [(lit ''grant_type'', Str TYPE_CLIENT_CREDENTIALS)])"
proof -
  from login_post[OF sent fresh]
  consider (u) "type_arg = Str TYPE_USER_CREDENTIALS"
      "token_request TYPE_USER_CREDENTIALS
         [(lit ''username'', username), (lit ''password'', password)] w = Inr q"
    | (c) "type_arg = Str TYPE_CLIENT_CREDENTIALS"
      "token_request TYPE_CLIENT_CREDENTIALS [] w = Inr q"
    by blast
  then show ?thesis
  proof cases
    case u
    from token_request_Inr[OF u(2)] u(1) show ?thesis
      using no_space_after_Basic by auto
  next
    case c
    from token_request_Inr[OF c(2)] c(1) show ?thesis
      using no_space_after_Basic by auto
  qed
qed

lemma secret_login_run:
  "login secret_instance (Str (lit ''client_credentials'')) False Undefined Undefined globals_world
     = \<lparr>inst = secret_instance,
        env = globals_world\<lparr>trace := [CookiesGet (lit ''qOAuth2''), HashRead,
                                      HttpPost sent_request]\<rparr>,
        promise = Pending, thrown = None\<rparr>"
proof -
  have h: "\<not> ((if Str (lit ''client_credentials'') = Undefined then Str TYPE_IMPLICIT
                else Str (lit ''client_credentials''))
              = Str TYPE_USER_CREDENTIALS \<and> \<not> (truthy Undefined \<and> truthy Undefined))"
    "\<not> truthy (accessToken secret_instance)"
    "\<not> truthy (cookies_get globals_world (COOKIE_KEY secret_instance))"
    "\<not> (drop 1 (location_hash globals_world) \<noteq> []
         \<and> truthy (obj_get (decodeHash (drop 1 (location_hash globals_world)))
              (lit ''access_token'')))"
    "\<not> False"
    by (simp_all add: secret_instance_def example_instance_def globals_world_def
        example_world_def cookies_get_def TYPE_USER_CREDENTIALS_def lit_def)
  have b: "btoa (lit ''cid'' @ lit '':'' @ lit ''sec'') = Inr (lit ''Y2lkOnNlYw=='')"
    by (simp add: btoa_def b64_char_def lit_def)
  have g: "global_ref globals_world (lit ''SERVER'') = Inr (lit ''http://s/oauth/'')"
    "global_ref globals_world (lit ''TOKEN'') = Inr (lit ''token'')"
    "global_ref globals_world (lit ''CLIENT_ID'') = Inr (lit ''cid'')"
    "global_ref globals_world (lit ''CLIENT_SECRET'') = Inr (lit ''sec'')"
    by (simp_all add: global_ref_def globals_world_def example_world_def lit_def)
  have t: "token_request TYPE_CLIENT_CREDENTIALS []
        (globals_world\<lparr>trace := trace globals_world @ [CookiesGet (lit ''qOAuth2''), HashRead]\<rparr>)
      = Inr sent_request"
  proof -
    have t0: "token_request TYPE_CLIENT_CREDENTIALS [] globals_world =
        Inr \<lparr>req_method = lit ''POST'', req_url = lit ''http://s/oauth/'' @ lit ''token'',
             req_Authorization = lit ''Basic'' @ lit ''Y2lkOnNlYw=='',
             req_data = [(lit ''grant_type'', Str TYPE_CLIENT_CREDENTIALS)]\<rparr>"
      by (simp add: token_request_def g b)
    have t1: "\<lparr>req_method = lit ''POST'', req_url = lit ''http://s/oauth/'' @ lit ''token'',
             req_Authorization = lit ''Basic'' @ lit ''Y2lkOnNlYw=='',
             req_data = [(lit ''grant_type'', Str TYPE_CLIENT_CREDENTIALS)]\<rparr> = sent_request"
      by (simp add: sent_request_def TYPE_CLIENT_CREDENTIALS_def lit_def)
    have "token_request TYPE_CLIENT_CREDENTIALS []
        (globals_world\<lparr>trace := trace globals_world @ [CookiesGet (lit ''qOAuth2''), HashRead]\<rparr>)
      = token_request TYPE_CLIENT_CREDENTIALS [] globals_world"
      by (rule token_request_globals) simp
    then show ?thesis using t0 t1 by simp
  qed
  have c: "Str (lit ''client_credentials'') = Str TYPE_CLIENT_CREDENTIALS"
    by (simp add: TYPE_CLIENT_CREDENTIALS_def)
  have k: "COOKIE_KEY secret_instance = lit ''qOAuth2''"
    "truthy (CLIENT_SECRET secret_instance)"
    "location_hash globals_world = []" "trace globals_world = []"
    by (simp_all add: secret_instance_def example_instance_def globals_world_def
        example_world_def lit_def)
  show ?thesis
    unfolding login_exhausted[OF h]
    using TYPE_distinct t
    by (simp add: c k token_from_server_def exchange_def returns_def emit_def)
qed

theorem token_request_header_has_no_space_witness:
  "HttpPost sent_request \<in> set (trace (env (login secret_instance
       (Str (lit ''client_credentials'')) False Undefined Undefined globals_world)))
   \<and> HttpPost sent_request \<notin> set (trace globals_world)
   \<and> CLIENT_ID secret_instance = lit ''cid''
   \<and> CLIENT_SECRET secret_instance = Str (lit ''sec'')
   \<and> btoa (lit ''cid'' @ lit '':'' @ lit ''sec'') = Inr (lit ''Y2lkOnNlYw=='')
   \<and> req_Authorization sent_request = lit ''BasicY2lkOnNlYw==''
   \<and> req_Authorization sent_request \<noteq> lit ''Basic Y2lkOnNlYw==''"
proof -
  have s: "HttpPost sent_request \<in> set (trace (env (login secret_instance
       (Str (lit ''client_credentials'')) False Undefined Undefined globals_world)))"
    unfolding secret_login_run by simp
  have f: "HttpPost sent_request \<notin> set (trace globals_world)"
    by (simp add: globals_world_def example_world_def)
  have b: "btoa (lit ''cid'' @ lit '':'' @ lit ''sec'') = Inr (lit ''Y2lkOnNlYw=='')"
    by (simp add: btoa_def b64_char_def lit_def)
  have g: "globals globals_world (lit ''CLIENT_ID'') = Some (lit ''cid'')"
    "globals globals_world (lit ''CLIENT_SECRET'') = Some (lit ''sec'')"
    by (simp_all add: globals_world_def example_world_def lit_def)
  have e: "lit ''Basic '' @ lit ''Y2lkOnNlYw=='' = lit ''Basic Y2lkOnNlYw==''"
    by (simp add: lit_def)
  from token_request_header_has_no_space[OF s f] g b
  have "req_Authorization sent_request \<noteq> lit ''Basic '' @ lit ''Y2lkOnNlYw==''" by auto
  then show ?thesis
    using s f b e
    by (simp add: secret_instance_def example_instance_def sent_request_def)
qed

text \<open>
  On a page that does not define the global variable \<open>SERVER\<close>, evaluating the
  configuration of the \<open>$http\<close> call throws a \<open>ReferenceError\<close>, and no request is sent.
\<close>

lemma token_request_without_globals:
  "globals w (lit ''SERVER'') = None \<Longrightarrow>
   token_request ty d w = Inl (ReferenceError (lit ''SERVER''))"
  by (simp add: token_request_def global_ref_def)

lemma login_with_secret_without_globals:
  "thrown (login secret_instance (Str (lit ''client_credentials'')) False Undefined Undefined
      example_world) = Some (ReferenceError (lit ''SERVER''))
   \<and> trace (env (login secret_instance (Str (lit ''client_credentials'')) False Undefined
      Undefined example_world)) = [CookiesGet (lit ''qOAuth2''), HashRead]"
proof -
  have h: "\<not> ((if Str (lit ''client_credentials'') = Undefined then Str TYPE_IMPLICIT
                else Str (lit ''client_credentials''))
              = Str TYPE_USER_CREDENTIALS \<and> \<not> (truthy Undefined \<and> truthy Undefined))"
    "\<not> truthy (accessToken secret_instance)"
    "\<not> truthy (cookies_get example_world (COOKIE_KEY secret_instance))"
    "\<not> (drop 1 (location_hash example_world) \<noteq> []
         \<and> truthy (obj_get (decodeHash (drop 1 (location_hash example_world)))
              (lit ''access_token'')))"
    "\<not> False"
    by (simp_all add: secret_instance_def example_instance_def
        example_world_def cookies_get_def TYPE_USER_CREDENTIALS_def lit_def)
  have t: "token_request TYPE_CLIENT_CREDENTIALS []
        (example_world\<lparr>trace := [CookiesGet (lit ''qOAuth2''), HashRead]\<rparr>)
      = Inl (ReferenceError (lit ''SERVER''))"
    by (rule token_request_without_globals) (simp add: example_world_def)
  have c: "Str (lit ''client_credentials'') = Str TYPE_CLIENT_CREDENTIALS"
    by (simp add: TYPE_CLIENT_CREDENTIALS_def)
  have k: "COOKIE_KEY secret_instance = lit ''qOAuth2''"
    "truthy (CLIENT_SECRET secret_instance)"
    "location_hash example_world = []" "trace example_world = []"
    by (simp_all add: secret_instance_def example_instance_def example_world_def lit_def)
  show ?thesis
    unfolding login_exhausted[OF h]
    using TYPE_distinct t
    by (simp add: c k token_from_server_def exchange_def throws_def)
qed

end
